theory Spec2Isabelle
  imports Main
begin

section \<open>Diagnostics, remote replies and call traces\<close>

text \<open>
  Every resource function of the provider returns \<open>diag.Diagnostics\<close>: \<open>nil\<close> on
  success, or one error diagnostic built by \<open>tf.ErrorDiagF\<close>, \<open>tf.ErrorDiagPathF\<close>,
  \<open>tf.ImportAsExistsDiag\<close> or \<open>tf.ImportAsDuplicateDiag\<close>. The \<open>tf\<close> package is
  not among the sources; each of its diagnostics is an error surfaced to the
  caller (section 7 of the specification). The constructors below stand for the
  call sites and carry the attribute path and the summary format string, or the
  resource name and the identifiers, of the call. \<open>GoPanic\<close> is a run-time panic
  (a nil dereference or an index out of range).
\<close>

datatype diagnostics =
    NilDiag
  | ErrorDiagF string
  | ErrorDiagPathF string string
  | ImportAsExistsDiag string string
  | ImportAsDuplicateDiag string string string
  | GoPanic

text \<open>
  A call on the directory client returns either an error together with an HTTP
  status (\<open>err != nil\<close>), or its result.
\<close>

datatype 'a response = Failed int | Returned 'a

definition StatusNotFound :: int where
  "StatusNotFound = 404"

text \<open>
  The calls a resource function issues, in order. \<open>'p\<close> is the payload type of
  the service (group, user or application). Besides the methods of the client,
  the helpers that are not among the sources and talk to the remote are calls
  too: \<open>helpers.GroupCheckNameAvailability\<close>, \<open>helpers.ApplicationFindByName\<close>,
  \<open>helpers.WaitForCreationReplication\<close> (the replication waiter, named by the object
  ID its probe fetches), \<open>helpers.ApplicationSetOwners\<close>,
  \<open>helpers.ApplicationSetAppRoles\<close> and
  \<open>helpers.ApplicationSetOAuth2PermissionScopes\<close>.
\<close>

datatype 'p call =
    GroupCheckNameAvailability string "string option"
  | ApplicationFindByName string
  | Create 'p
  | WaitForCreationReplication string
  | Get string
  | Update 'p
  | Delete string
  | ListOwners string
  | ListMembers string
  | AddMembers 'p
  | RemoveMembers string "string list"
  | AddOwners 'p
  | RemoveOwners string "string list"
  | ApplicationSetOwners 'p "string list"
  | ApplicationSetAppRoles 'p
  | ApplicationSetOAuth2PermissionScopes 'p

text \<open>
  The remote side decides the outcome of every call. Each reply may depend on the
  calls issued so far (the first argument), so a remote that fails the second of
  two updates, or that serves an object only after a while, is an instance.
\<close>

record 'p client =
  onCheckName :: "'p call list \<Rightarrow> string \<Rightarrow> string option \<Rightarrow> string option response"
  onFindByName :: "'p call list \<Rightarrow> string \<Rightarrow> 'p option response"
  onCreate :: "'p call list \<Rightarrow> 'p \<Rightarrow> 'p response"
  onWait :: "'p call list \<Rightarrow> string \<Rightarrow> unit response"
  onGet :: "'p call list \<Rightarrow> string \<Rightarrow> 'p response"
  onUpdate :: "'p call list \<Rightarrow> 'p \<Rightarrow> unit response"
  onDelete :: "'p call list \<Rightarrow> string \<Rightarrow> unit response"
  onListOwners :: "'p call list \<Rightarrow> string \<Rightarrow> string list response"
  onListMembers :: "'p call list \<Rightarrow> string \<Rightarrow> string list response"
  onAddMembers :: "'p call list \<Rightarrow> 'p \<Rightarrow> unit response"
  onRemoveMembers :: "'p call list \<Rightarrow> string \<Rightarrow> string list \<Rightarrow> unit response"
  onAddOwners :: "'p call list \<Rightarrow> 'p \<Rightarrow> unit response"
  onRemoveOwners :: "'p call list \<Rightarrow> string \<Rightarrow> string list \<Rightarrow> unit response"
  onSetOwners :: "'p call list \<Rightarrow> 'p \<Rightarrow> string list \<Rightarrow> unit response"
  onSetAppRoles :: "'p call list \<Rightarrow> 'p \<Rightarrow> unit response"
  onSetScopes :: "'p call list \<Rightarrow> 'p \<Rightarrow> unit response"

text \<open>
  What a resource function leaves behind: its diagnostics, the resource ID held in
  the local state (\<open>d.Id()\<close>, empty when the record is removed from the state), and
  the calls it issued.
\<close>

record 'p result =
  diags :: diagnostics
  Id :: string
  calls :: "'p call list"

definition isWait :: "'p call \<Rightarrow> bool" where
  "isWait c = (case c of WaitForCreationReplication _ \<Rightarrow> True | _ \<Rightarrow> False)"

definition isUpdate :: "'p call \<Rightarrow> bool" where
  "isUpdate c = (case c of Update _ \<Rightarrow> True | _ \<Rightarrow> False)"

definition isCreate :: "'p call \<Rightarrow> bool" where
  "isCreate c = (case c of Create _ \<Rightarrow> True | _ \<Rightarrow> False)"

text \<open>\<open>d.GetOk\<close> on a string attribute: set means not the zero value.\<close>

definition GetOk :: "string \<Rightarrow> string option" where
  "GetOk v = (if v = [] then None else Some v)"

text \<open>
  Go's \<open>strings.Split\<close> for a separator of one byte: the pieces between the
  separators, one piece more than there are separators.
\<close>

fun Split :: "string \<Rightarrow> char \<Rightarrow> string list" where
  "Split [] sep = [[]]"
| "Split (c # cs) sep =
     (if c = sep then [] # Split cs sep
      else (case Split cs sep of [] \<Rightarrow> [[c]] | p # ps \<Rightarrow> (c # p) # ps))"


section \<open>Domains data source\<close>

record Domain =
  domainID :: "string option"
  AuthenticationType :: "string option"
  IsDefault :: "bool option"
  IsInitial :: "bool option"
  IsVerified :: "bool option"

record domains_config =
  only_default :: bool
  only_initial :: bool
  include_unverified :: bool

text \<open>The three \<open>continue\<close> guards of the loop over the listed domains.\<close>

definition skipDomain :: "domains_config \<Rightarrow> Domain \<Rightarrow> bool" where
  "skipDomain cfg v =
     ((only_default cfg \<and> IsDefault v \<noteq> None \<and> IsDefault v = Some False)
    \<or> (only_initial cfg \<and> IsInitial v \<noteq> None \<and> IsInitial v = Some False)
    \<or> (\<not> include_unverified cfg \<and> IsVerified v \<noteq> None \<and> IsVerified v = Some False))"

fun domainsLoop :: "domains_config \<Rightarrow> Domain list \<Rightarrow> Domain list \<Rightarrow> Domain list" where
  "domainsLoop cfg domains [] = domains"
| "domainsLoop cfg domains (v # vs) =
     (if skipDomain cfg v then domainsLoop cfg domains vs
      else domainsLoop cfg (domains @ [v]) vs)"

record domains_result =
  domainsDiags :: diagnostics
  domainsId :: string
  domainsSet :: "Domain list option"

text \<open>
  \<open>domainsDataSourceRead\<close>. \<open>listed\<close> is the reply of \<open>client.List\<close> (the result
  pointer may be nil), \<open>tenantId\<close> the client's tenant, \<open>id0\<close> the ID before the
  read.
\<close>

definition domainsDataSourceRead ::
  "Domain list option response \<Rightarrow> string \<Rightarrow> domains_config \<Rightarrow> string \<Rightarrow> domains_result" where
  "domainsDataSourceRead listed tenantId cfg id0 =
     (case listed of
        Failed status \<Rightarrow>
          \<lparr>domainsDiags = ErrorDiagF ''Could not list domains'', domainsId = id0, domainsSet = None\<rparr>
      | Returned result \<Rightarrow>
          (let id1 = ''domains-'' @ tenantId;
               domains = (case result of None \<Rightarrow> []
                          | Some rs \<Rightarrow> domainsLoop cfg [] rs)
           in if length domains = 0
              then \<lparr>domainsDiags = ErrorDiagF ''No domains found for the provided filters'',
                    domainsId = id1, domainsSet = None\<rparr>
              else \<lparr>domainsDiags = NilDiag, domainsId = id1, domainsSet = Some domains\<rparr>))"


section \<open>Users\<close>

record User =
  userID :: "string option"
  AccountEnabled :: "bool option"
  userDisplayName :: "string option"
  MailNickname :: "string option"
  ForceChangePasswordNextSignIn :: "bool option"
  Password :: "string option"
  UserPrincipalName :: "string option"

record user_config =
  user_principal_name :: string
  mail_nickname :: string
  account_enabled :: bool
  user_display_name :: string
  force_password_change :: bool
  password :: string

text \<open>
  The mail nickname of a new user (\<open>userResourceCreate\<close>, lines 211 to 217):
  the configured one, or by default the first piece of the UPN split at \<open>@\<close>.
  \<open>None\<close> is the index panic of \<open>[0]\<close> on an empty slice.
\<close>

definition createMailNickName :: "user_config \<Rightarrow> string option" where
  "createMailNickName cfg =
     (let upn = user_principal_name cfg;
          mailNickName = mail_nickname cfg
      in if mailNickName = []
         then (case Split upn CHR ''@'' of [] \<Rightarrow> None | p # _ \<Rightarrow> Some p)
         else Some mailNickName)"

text \<open>
  The payload of the create call (lines 219 to 228). The optional profile
  attributes of lines 230 to 284 are copied into the payload when set and take no
  part in the control flow; the record leaves them out.
\<close>

definition userProperties :: "user_config \<Rightarrow> string \<Rightarrow> User" where
  "userProperties cfg mailNickName =
     \<lparr>userID = None,
      AccountEnabled = Some (account_enabled cfg),
      userDisplayName = Some (user_display_name cfg),
      MailNickname = Some mailNickName,
      ForceChangePasswordNextSignIn = Some (force_password_change cfg),
      Password = Some (password cfg),
      UserPrincipalName = Some (user_principal_name cfg)\<rparr>"

text \<open>\<open>userResourceRead\<close>, with the calls issued before it in \<open>h\<close>.\<close>

definition userResourceRead :: "User client \<Rightarrow> User call list \<Rightarrow> string \<Rightarrow> User result" where
  "userResourceRead cl h objectId =
     (case onGet cl h objectId of
        Failed status \<Rightarrow>
          if status = StatusNotFound
          then \<lparr>diags = NilDiag, Id = [], calls = h @ [Get objectId]\<rparr>
          else \<lparr>diags = ErrorDiagF ''Retrieving user with object ID: %q'', Id = objectId,
                calls = h @ [Get objectId]\<rparr>
      | Returned user \<Rightarrow> \<lparr>diags = NilDiag, Id = objectId, calls = h @ [Get objectId]\<rparr>)"

definition userResourceCreate :: "User client \<Rightarrow> user_config \<Rightarrow> string \<Rightarrow> User result" where
  "userResourceCreate cl cfg id0 =
     (case createMailNickName cfg of
        None \<Rightarrow> \<lparr>diags = GoPanic, Id = id0, calls = []\<rparr>
      | Some mailNickName \<Rightarrow>
          (let properties = userProperties cfg mailNickName;
               h1 = [Create properties]
           in case onCreate cl [] properties of
                Failed status \<Rightarrow>
                  \<lparr>diags = ErrorDiagF ''Creating user %q'', Id = id0, calls = h1\<rparr>
              | Returned user \<Rightarrow>
                  (case userID user of
                     None \<Rightarrow> \<lparr>diags = ErrorDiagF ''Bad API Response'', Id = id0, calls = h1\<rparr>
                   | Some uid \<Rightarrow>
                       if uid = []
                       then \<lparr>diags = ErrorDiagF ''Bad API Response'', Id = id0, calls = h1\<rparr>
                       else (let h2 = h1 @ [WaitForCreationReplication uid]
                             in case onWait cl h1 uid of
                                  Failed status \<Rightarrow>
                                    \<lparr>diags = ErrorDiagF ''Waiting for User with object ID: %q'',
                                     Id = uid, calls = h2\<rparr>
                                | Returned u \<Rightarrow> userResourceRead cl h2 uid))))"


section \<open>Groups\<close>

record Group =
  groupID :: "string option"
  groupDisplayName :: "string option"
  groupDescription :: "string option"
  groupMailNickname :: "string option"
  SecurityEnabled :: "bool option"
  MailEnabled :: "bool option"
  Members :: "string list"
  Owners :: "string list"

text \<open>
  The attributes of the group resource as the functions read them: \<open>None\<close> for a
  set attribute that is absent from the configuration, and the \<open>d.HasChange\<close>
  flags of an update.
\<close>

record group_config =
  group_display_name :: string
  group_description :: string
  group_members :: "string list option"
  group_owners :: "string list option"
  group_prevent_duplicate_names :: bool
  has_change_display_name :: bool
  has_change_description :: bool
  has_change_members :: bool
  has_change_owners :: bool

text \<open>\<open>d.GetOk\<close> on a set attribute: present and not empty.\<close>

definition GetOkSet :: "string list option \<Rightarrow> string list option" where
  "GetOkSet v = (case v of None \<Rightarrow> None | Some xs \<Rightarrow> if xs = [] then None else Some xs)"

text \<open>
  Modelled from the spec: \<open>Group.AppendMember\<close> of the msgraph library is not among
  the sources. Section 3 of the specification: a relationship set holds
  object-ID references; the method adds one reference to the group's members, and
  the reference is represented by the object ID it is built from.
\<close>

definition AppendMember :: "Group \<Rightarrow> string \<Rightarrow> Group" where
  "AppendMember g m = g\<lparr>Members := Members g @ [m]\<rparr>"

text \<open>
  Modelled from the spec: \<open>Group.AppendOwner\<close> of the msgraph library is not among
  the sources; as \<open>AppendMember\<close>, on the group's owners.
\<close>

definition AppendOwner :: "Group \<Rightarrow> string \<Rightarrow> Group" where
  "AppendOwner g m = g\<lparr>Owners := Owners g @ [m]\<rparr>"

text \<open>
  Modelled from the spec: \<open>utils.Difference\<close> is not among the sources. Section 4.4
  of the specification: the entries of the first list that are not in the second,
  as a set difference, with duplicate entries collapsed before differencing. An
  empty result is the nil slice.
\<close>

definition Difference :: "string list \<Rightarrow> string list \<Rightarrow> string list" where
  "Difference a b = filter (\<lambda>x. x \<notin> set b) (remdups a)"

definition groupCheckName ::
  "Group client \<Rightarrow> Group call list \<Rightarrow> string \<Rightarrow> string option \<Rightarrow> diagnostics \<times> Group call list" where
  "groupCheckName cl h displayName excl =
     (let h1 = h @ [GroupCheckNameAvailability displayName excl]
      in case onCheckName cl h displayName excl of
           Failed status \<Rightarrow>
             (ErrorDiagPathF ''display_name'' ''Could not check for existing group(s)'', h1)
         | Returned existingId \<Rightarrow>
             (case existingId of
                Some e \<Rightarrow> (ImportAsDuplicateDiag ''azuread_group'' e displayName, h1)
              | None \<Rightarrow> (NilDiag, h1)))"

definition groupResourceRead :: "Group client \<Rightarrow> Group call list \<Rightarrow> string \<Rightarrow> Group result" where
  "groupResourceRead cl h id0 =
     (let h1 = h @ [Get id0]
      in case onGet cl h id0 of
           Failed status \<Rightarrow>
             if status = StatusNotFound
             then \<lparr>diags = NilDiag, Id = [], calls = h1\<rparr>
             else \<lparr>diags = ErrorDiagF ''Retrieving group with object ID: %q'', Id = id0, calls = h1\<rparr>
         | Returned grp \<Rightarrow>
             (case groupID grp of
                None \<Rightarrow> \<lparr>diags = GoPanic, Id = id0, calls = h1\<rparr>
              | Some gid \<Rightarrow>
                  (let h2 = h1 @ [ListOwners gid]
                   in case onListOwners cl h1 gid of
                        Failed status \<Rightarrow>
                          \<lparr>diags = ErrorDiagPathF ''owners''
                             ''Could not retrieve owners for group with object ID %q'',
                           Id = id0, calls = h2\<rparr>
                      | Returned owners \<Rightarrow>
                          (let h3 = h2 @ [ListMembers gid]
                           in case onListMembers cl h2 gid of
                                Failed status \<Rightarrow>
                                  \<lparr>diags = ErrorDiagPathF ''owners''
                                     ''Could not retrieve members for group with object ID %q'',
                                   Id = id0, calls = h3\<rparr>
                              | Returned members \<Rightarrow>
                                  \<lparr>diags = NilDiag, Id = id0, calls = h3\<rparr>))))"

text \<open>
  \<open>groupResourceCreate\<close>. \<open>gen\<close> is the outcome of \<open>uuid.GenerateUUID\<close>
  (\<open>None\<close> when it fails).
\<close>

definition groupCreateProperties :: "group_config \<Rightarrow> string \<Rightarrow> Group" where
  "groupCreateProperties cfg mailNickname =
     (let properties = \<lparr>groupID = None,
                         groupDisplayName = Some (group_display_name cfg),
                         groupDescription = GetOk (group_description cfg),
                         groupMailNickname = Some mailNickname,
                         SecurityEnabled = Some True,
                         MailEnabled = Some False,
                         Members = [], Owners = []\<rparr>;
          properties1 = (case GetOkSet (group_members cfg) of
                           None \<Rightarrow> properties
                         | Some members \<Rightarrow> foldl AppendMember properties members)
      in case GetOkSet (group_owners cfg) of
           None \<Rightarrow> properties1
         | Some owners \<Rightarrow> foldl AppendOwner properties1 owners)"

definition groupResourceCreate ::
  "Group client \<Rightarrow> string option \<Rightarrow> group_config \<Rightarrow> string \<Rightarrow> Group result" where
  "groupResourceCreate cl gen cfg id0 =
     (let displayName = group_display_name cfg;
          checked = (if group_prevent_duplicate_names cfg
                     then groupCheckName cl [] displayName None
                     else (NilDiag, []));
          h1 = snd checked
      in if fst checked \<noteq> NilDiag then \<lparr>diags = fst checked, Id = id0, calls = h1\<rparr>
         else (case gen of
                 None \<Rightarrow> \<lparr>diags = ErrorDiagF ''Failed to generate mailNickname'', Id = id0, calls = h1\<rparr>
               | Some mailNickname \<Rightarrow>
                   (let properties = groupCreateProperties cfg mailNickname;
                        h2 = h1 @ [Create properties]
                    in case onCreate cl h1 properties of
                         Failed status \<Rightarrow>
                           \<lparr>diags = ErrorDiagF ''Creating group %q'', Id = id0, calls = h2\<rparr>
                       | Returned grp \<Rightarrow>
                           (case groupID grp of
                              None \<Rightarrow> \<lparr>diags = ErrorDiagF ''Bad API Response'', Id = id0, calls = h2\<rparr>
                            | Some gid \<Rightarrow>
                                (let h3 = h2 @ [WaitForCreationReplication gid]
                                 in case onWait cl h2 gid of
                                      Failed status \<Rightarrow>
                                        \<lparr>diags = ErrorDiagF ''Waiting for Group with object ID: %q'',
                                         Id = gid, calls = h3\<rparr>
                                    | Returned u \<Rightarrow> groupResourceRead cl h3 gid)))))"

text \<open>
  The members block of \<open>groupResourceUpdate\<close> (lines 229 to 255): list the
  current members, remove the surplus, then add the missing. The result is the
  diagnostics (\<open>NilDiag\<close> to go on), the group under construction and the calls.
\<close>

definition groupUpdateMembers ::
  "Group client \<Rightarrow> Group call list \<Rightarrow> string \<Rightarrow> Group \<Rightarrow> string list
     \<Rightarrow> diagnostics \<times> Group \<times> Group call list" where
  "groupUpdateMembers cl h id0 grp v =
     (let h1 = h @ [ListMembers id0]
      in case onListMembers cl h id0 of
           Failed status \<Rightarrow>
             (ErrorDiagF ''Could not retrieve members for group with ID: %q'', grp, h1)
         | Returned members \<Rightarrow>
             (let existingMembers = members;
                  desiredMembers = v;
                  membersForRemoval = Difference existingMembers desiredMembers;
                  membersToAdd = Difference desiredMembers existingMembers;
                  removed = (if membersForRemoval \<noteq> []
                             then (case onRemoveMembers cl h1 id0 membersForRemoval of
                                     Failed status \<Rightarrow>
                                       (ErrorDiagF ''Could not remove members from group with ID: %q'',
                                        h1 @ [RemoveMembers id0 membersForRemoval])
                                   | Returned u \<Rightarrow> (NilDiag, h1 @ [RemoveMembers id0 membersForRemoval]))
                             else (NilDiag, h1));
                  h2 = snd removed
              in if fst removed \<noteq> NilDiag then (fst removed, grp, h2)
                 else if membersToAdd \<noteq> []
                 then (let grp1 = foldl AppendMember grp membersToAdd
                       in case onAddMembers cl h2 grp1 of
                            Failed status \<Rightarrow>
                              (ErrorDiagF ''Could not add members to group with ID: %q'',
                               grp1, h2 @ [AddMembers grp1])
                          | Returned u \<Rightarrow> (NilDiag, grp1, h2 @ [AddMembers grp1]))
                 else (NilDiag, grp, h2)))"

text \<open>
  The owners block (lines 257 to 283): the same difference, but the missing
  owners are added before the surplus is removed.
\<close>

definition groupUpdateOwners ::
  "Group client \<Rightarrow> Group call list \<Rightarrow> string \<Rightarrow> Group \<Rightarrow> string list
     \<Rightarrow> diagnostics \<times> Group \<times> Group call list" where
  "groupUpdateOwners cl h id0 grp v =
     (let h1 = h @ [ListOwners id0]
      in case onListOwners cl h id0 of
           Failed status \<Rightarrow>
             (ErrorDiagF ''Could not retrieve eowners for group with ID: %q'', grp, h1)
         | Returned owners \<Rightarrow>
             (let existingOwners = owners;
                  desiredOwners = v;
                  ownersForRemoval = Difference existingOwners desiredOwners;
                  ownersToAdd = Difference desiredOwners existingOwners;
                  grp1 = (if ownersToAdd \<noteq> [] then foldl AppendOwner grp ownersToAdd else grp);
                  added = (if ownersToAdd \<noteq> []
                           then (case onAddOwners cl h1 grp1 of
                                   Failed status \<Rightarrow>
                                     (ErrorDiagF ''Could not add owners to group with ID: %q'',
                                      h1 @ [AddOwners grp1])
                                 | Returned u \<Rightarrow> (NilDiag, h1 @ [AddOwners grp1]))
                           else (NilDiag, h1));
                  h2 = snd added
              in if fst added \<noteq> NilDiag then (fst added, grp1, h2)
                 else if ownersForRemoval \<noteq> []
                 then (case onRemoveOwners cl h2 id0 ownersForRemoval of
                         Failed status \<Rightarrow>
                           (ErrorDiagF ''Could not remove owners from group with ID: %q'',
                            grp1, h2 @ [RemoveOwners id0 ownersForRemoval])
                       | Returned u \<Rightarrow> (NilDiag, grp1, h2 @ [RemoveOwners id0 ownersForRemoval]))
                 else (NilDiag, grp1, h2)))"

definition groupUpdateProperties :: "group_config \<Rightarrow> string \<Rightarrow> Group" where
  "groupUpdateProperties cfg id0 =
     \<lparr>groupID = Some id0,
      groupDisplayName = (if has_change_display_name cfg then Some (group_display_name cfg) else None),
      groupDescription = (if has_change_description cfg then Some (group_description cfg) else None),
      groupMailNickname = None, SecurityEnabled = None, MailEnabled = None,
      Members = [], Owners = []\<rparr>"

definition groupResourceUpdate :: "Group client \<Rightarrow> group_config \<Rightarrow> string \<Rightarrow> Group result" where
  "groupResourceUpdate cl cfg id0 =
     (let displayName = group_display_name cfg;
          checked = (if has_change_display_name cfg \<and> group_prevent_duplicate_names cfg
                     then groupCheckName cl [] displayName (Some id0)
                     else (NilDiag, []));
          h1 = snd checked
      in if fst checked \<noteq> NilDiag then \<lparr>diags = fst checked, Id = id0, calls = h1\<rparr>
         else (let grp = groupUpdateProperties cfg id0;
                   h2 = h1 @ [Update grp]
               in case onUpdate cl h1 grp of
                    Failed status \<Rightarrow>
                      \<lparr>diags = ErrorDiagF ''Updating group with ID: %q'', Id = id0, calls = h2\<rparr>
                  | Returned u \<Rightarrow>
                      (let ms = (case group_members cfg of
                                   Some v \<Rightarrow> if has_change_members cfg
                                             then groupUpdateMembers cl h2 id0 grp v
                                             else (NilDiag, grp, h2)
                                 | None \<Rightarrow> (NilDiag, grp, h2))
                       in if fst ms \<noteq> NilDiag
                          then \<lparr>diags = fst ms, Id = id0, calls = snd (snd ms)\<rparr>
                          else (let os = (case group_owners cfg of
                                            Some v \<Rightarrow> if has_change_owners cfg
                                                      then groupUpdateOwners cl (snd (snd ms)) id0
                                                             (fst (snd ms)) v
                                                      else (NilDiag, fst (snd ms), snd (snd ms))
                                          | None \<Rightarrow> (NilDiag, fst (snd ms), snd (snd ms)))
                                in if fst os \<noteq> NilDiag
                                   then \<lparr>diags = fst os, Id = id0, calls = snd (snd os)\<rparr>
                                   else groupResourceRead cl (snd (snd os)) id0))))"


section \<open>Applications: the data model\<close>

record AppRole =
  roleID :: "string option"
  AllowedMemberTypes :: "string list option"
  roleDescription :: "string option"
  roleDisplayName :: "string option"
  roleIsEnabled :: "bool option"
  roleValue :: "string option"

record PermissionScope =
  scopeID :: "string option"
  AdminConsentDescription :: "string option"
  AdminConsentDisplayName :: "string option"
  scopeIsEnabled :: "bool option"
  scopeType :: string
  UserConsentDescription :: "string option"
  UserConsentDisplayName :: "string option"
  scopeValue :: "string option"

text \<open>A key credential has a key ID and no enabled flag.\<close>

record KeyCredential =
  KeyId :: "string option"
  credentialType :: string
  credentialUsage :: string
  credentialKey :: "string option"

record ApplicationApi =
  OAuth2PermissionScopes :: "PermissionScope list option"

text \<open>
  The fields of \<open>msgraph.Application\<close> that the sub-resource collections
  involve. Identifier URIs, optional claims, required resource access, the
  sign-in audience and the web block are copied from the configuration by the
  application resource and are left out.
\<close>

record Application =
  appID :: "string option"
  appDisplayName :: "string option"
  AppRoles :: "AppRole list option"
  Api :: "ApplicationApi option"
  KeyCredentials :: "KeyCredential list option"

definition emptyApplication :: Application where
  "emptyApplication =
     \<lparr>appID = None, appDisplayName = None, AppRoles = None, Api = None, KeyCredentials = None\<rparr>"

text \<open>
  The errors of the msgraph library as the resource functions tell them apart:
  \<open>*errors.AlreadyExistsError\<close> and any other error.
\<close>

datatype msgraph_error = AlreadyExistsError | OtherError

text \<open>
  A collection pointer that is nil is scanned as the empty collection: the
  sources guard each loop with \<open>if app.KeyCredentials != nil\<close>.
\<close>

definition collection :: "'a list option \<Rightarrow> 'a list" where
  "collection c = (case c of None \<Rightarrow> [] | Some vs \<Rightarrow> vs)"

text \<open>
  Modelled from the spec: the test the absent collection methods and lookups
  apply to an entry. Section 3 of the specification: an entry is identified by an
  ID unique within its parent's collection; an entry without ID matches none.
\<close>

definition hasID :: "('a \<Rightarrow> string option) \<Rightarrow> string option \<Rightarrow> 'a \<Rightarrow> bool" where
  "hasID idOf i v = (idOf v \<noteq> None \<and> idOf v = i)"

text \<open>
  Modelled from the spec: the lookup shared by \<open>helpers.AppRoleFindById\<close> and
  \<open>helpers.OAuth2PermissionFindById\<close>, which are not among the sources. Section
  4.2, step 3: the target entry is located by ID in a linear scan of the parent's
  collection.
\<close>

fun findEntry :: "('a \<Rightarrow> string option) \<Rightarrow> string \<Rightarrow> 'a list \<Rightarrow> 'a option" where
  "findEntry idOf i [] = None"
| "findEntry idOf i (v # vs) = (if hasID idOf (Some i) v then Some v else findEntry idOf i vs)"

text \<open>
  Modelled from the spec: the replacement shared by \<open>Application.UpdateAppRole\<close>
  and \<open>ApplicationApi.UpdateOAuth2PermissionScope\<close> of the msgraph library, which
  are not among the sources. Section 4.2, step 4: the entry with the ID is
  replaced in the in-memory collection.
\<close>

fun replaceEntry :: "('a \<Rightarrow> string option) \<Rightarrow> 'a \<Rightarrow> 'a list \<Rightarrow> 'a list" where
  "replaceEntry idOf e [] = []"
| "replaceEntry idOf e (v # vs) =
     (if hasID idOf (idOf e) v then e # vs else v # replaceEntry idOf e vs)"

text \<open>
  Modelled from the spec: the append shared by \<open>Application.AppendAppRole\<close> and
  \<open>ApplicationApi.AppendOAuth2PermissionScope\<close> of the msgraph library, which are
  not among the sources. Section 4.2, steps 3 and 4: a create verifies that no
  existing entry has the ID, AlreadyExists otherwise, and appends the entry.
\<close>

definition appendEntry :: "('a \<Rightarrow> string option) \<Rightarrow> 'a \<Rightarrow> 'a list \<Rightarrow> msgraph_error + 'a list" where
  "appendEntry idOf e vs =
     (if list_ex (hasID idOf (idOf e)) vs then Inl AlreadyExistsError else Inr (vs @ [e]))"

text \<open>
  Modelled from the spec: the removal shared by \<open>Application.RemoveAppRole\<close> and
  \<open>ApplicationApi.RemoveOAuth2PermissionScope\<close> of the msgraph library, which are
  not among the sources. Section 4.2, step 4: the entry is removed from the
  collection; removing an entry that is not there is an error.
\<close>

definition removeEntry :: "('a \<Rightarrow> string option) \<Rightarrow> 'a \<Rightarrow> 'a list \<Rightarrow> msgraph_error + 'a list" where
  "removeEntry idOf e vs =
     (let kept = filter (\<lambda>v. \<not> hasID idOf (idOf e) v) vs
      in if length kept = length vs then Inl OtherError else Inr kept)"

text \<open>
  Modelled from the spec: \<open>Application.AppendAppRole\<close> (msgraph library, not among
  the sources), \<open>appendEntry\<close> on the application's app roles.
\<close>

definition AppendAppRole :: "Application \<Rightarrow> AppRole \<Rightarrow> msgraph_error + Application" where
  "AppendAppRole app role =
     (case appendEntry roleID role (collection (AppRoles app)) of
        Inl e \<Rightarrow> Inl e
      | Inr vs \<Rightarrow> Inr (app\<lparr>AppRoles := Some vs\<rparr>))"

text \<open>
  Modelled from the spec: \<open>Application.UpdateAppRole\<close> (msgraph library, not among
  the sources), \<open>replaceEntry\<close> on the application's app roles; an application
  without a role collection has nothing to replace, which is an error.
\<close>

definition UpdateAppRole :: "Application \<Rightarrow> AppRole \<Rightarrow> msgraph_error + Application" where
  "UpdateAppRole app role =
     (case AppRoles app of
        None \<Rightarrow> Inl OtherError
      | Some vs \<Rightarrow> Inr (app\<lparr>AppRoles := Some (replaceEntry roleID role vs)\<rparr>))"

text \<open>
  Modelled from the spec: \<open>Application.RemoveAppRole\<close> (msgraph library, not among
  the sources), \<open>removeEntry\<close> on the application's app roles.
\<close>

definition RemoveAppRole :: "Application \<Rightarrow> AppRole \<Rightarrow> msgraph_error + Application" where
  "RemoveAppRole app role =
     (case AppRoles app of
        None \<Rightarrow> Inl OtherError
      | Some vs \<Rightarrow> (case removeEntry roleID role vs of
                     Inl e \<Rightarrow> Inl e
                   | Inr kept \<Rightarrow> Inr (app\<lparr>AppRoles := Some kept\<rparr>)))"

text \<open>
  Modelled from the spec: \<open>helpers.AppRoleFindById\<close> is not among the sources.
  Section 4.2, step 3: a linear scan of the application's app roles for the ID;
  the specification describes no failure of the scan.
\<close>

definition AppRoleFindById :: "Application \<Rightarrow> string \<Rightarrow> msgraph_error + AppRole option" where
  "AppRoleFindById app roleId = Inr (findEntry roleID roleId (collection (AppRoles app)))"

text \<open>
  Modelled from the spec: \<open>ApplicationApi.AppendOAuth2PermissionScope\<close> (msgraph
  library, not among the sources), \<open>appendEntry\<close> on the permission scopes.
\<close>

definition AppendOAuth2PermissionScope ::
  "ApplicationApi \<Rightarrow> PermissionScope \<Rightarrow> msgraph_error + ApplicationApi" where
  "AppendOAuth2PermissionScope api scope =
     (case appendEntry scopeID scope (collection (OAuth2PermissionScopes api)) of
        Inl e \<Rightarrow> Inl e
      | Inr vs \<Rightarrow> Inr (api\<lparr>OAuth2PermissionScopes := Some vs\<rparr>))"

text \<open>
  Modelled from the spec: \<open>ApplicationApi.UpdateOAuth2PermissionScope\<close> (msgraph
  library, not among the sources), \<open>replaceEntry\<close> on the permission scopes.
\<close>

definition UpdateOAuth2PermissionScope ::
  "ApplicationApi \<Rightarrow> PermissionScope \<Rightarrow> msgraph_error + ApplicationApi" where
  "UpdateOAuth2PermissionScope api scope =
     (case OAuth2PermissionScopes api of
        None \<Rightarrow> Inl OtherError
      | Some vs \<Rightarrow> Inr (api\<lparr>OAuth2PermissionScopes := Some (replaceEntry scopeID scope vs)\<rparr>))"

text \<open>
  Modelled from the spec: \<open>ApplicationApi.RemoveOAuth2PermissionScope\<close> (msgraph
  library, not among the sources), \<open>removeEntry\<close> on the permission scopes.
\<close>

definition RemoveOAuth2PermissionScope ::
  "ApplicationApi \<Rightarrow> PermissionScope \<Rightarrow> msgraph_error + ApplicationApi" where
  "RemoveOAuth2PermissionScope api scope =
     (case OAuth2PermissionScopes api of
        None \<Rightarrow> Inl OtherError
      | Some vs \<Rightarrow> (case removeEntry scopeID scope vs of
                     Inl e \<Rightarrow> Inl e
                   | Inr kept \<Rightarrow> Inr (api\<lparr>OAuth2PermissionScopes := Some kept\<rparr>)))"

text \<open>
  Modelled from the spec: \<open>helpers.OAuth2PermissionFindById\<close> is not among the
  sources. Section 4.2, step 3: a linear scan of the application's permission
  scopes for the ID; an application without an \<open>api\<close> block holds none.
\<close>

definition OAuth2PermissionFindById ::
  "Application \<Rightarrow> string \<Rightarrow> msgraph_error + PermissionScope option" where
  "OAuth2PermissionFindById app scopeId =
     Inr (case Api app of
            None \<Rightarrow> None
          | Some api \<Rightarrow> findEntry scopeID scopeId (collection (OAuth2PermissionScopes api)))"

text \<open>
  Modelled from the spec: \<open>parse.NewAppRoleID\<close>, \<open>parse.NewOAuth2PermissionScopeID\<close>
  and their \<open>String\<close> methods are not among the sources. Section 6 of the
  specification: a sub-resource is identified by \<open><parentObjectId>/<subResourceId>\<close>.
\<close>

definition SubResourceIDString :: "string \<Rightarrow> string \<Rightarrow> string" where
  "SubResourceIDString objectId subId = objectId @ ''/'' @ subId"

text \<open>
  Modelled from the spec: \<open>parse.AppRoleID\<close> and \<open>parse.OAuth2PermissionScopeID\<close>
  are not among the sources. Section 6: the two segments of
  \<open><parentObjectId>/<subResourceId>\<close>; any other shape is a parse error.
\<close>

definition SubResourceID :: "string \<Rightarrow> (string \<times> string) option" where
  "SubResourceID s =
     (case Split s CHR ''/'' of
        [objectId, subId] \<Rightarrow> Some (objectId, subId)
      | _ \<Rightarrow> None)"

text \<open>
  Modelled from the spec: \<open>parse.NewCredentialID\<close> and its \<open>String\<close> method are not
  among the sources. Section 6: the identifier of a credential has a third
  segment that names its type.
\<close>

definition CredentialIDString :: "string \<Rightarrow> string \<Rightarrow> string \<Rightarrow> string" where
  "CredentialIDString objectId keyType keyId = objectId @ ''/'' @ keyType @ ''/'' @ keyId"

text \<open>
  Modelled from the spec: \<open>parse.CertificateID\<close> is not among the sources. Section
  6: the three segments of a credential identifier whose type is \<open>certificate\<close>;
  any other shape is a parse error.
\<close>

definition CertificateID :: "string \<Rightarrow> (string \<times> string) option" where
  "CertificateID s =
     (case Split s CHR ''/'' of
        [objectId, keyType, keyId] \<Rightarrow>
          if keyType = ''certificate'' then Some (objectId, keyId) else None
      | _ \<Rightarrow> None)"


section \<open>App role resource\<close>

record app_role_config =
  role_application_object_id :: string
  role_allowed_member_types :: "string list"
  role_description :: string
  role_display_name :: string
  role_enabled :: bool
  role_id :: string
  role_value :: string

definition appRoleOfConfig :: "app_role_config \<Rightarrow> string \<Rightarrow> AppRole" where
  "appRoleOfConfig cfg roleId =
     \<lparr>roleID = Some roleId,
      AllowedMemberTypes = Some (role_allowed_member_types cfg),
      roleDescription = Some (role_description cfg),
      roleDisplayName = Some (role_display_name cfg),
      roleIsEnabled = Some (role_enabled cfg),
      roleValue = GetOk (role_value cfg)\<rparr>"

definition applicationAppRoleResourceRead ::
  "Application client \<Rightarrow> Application call list \<Rightarrow> string \<Rightarrow> Application result" where
  "applicationAppRoleResourceRead cl h id0 =
     (case SubResourceID id0 of
        None \<Rightarrow> \<lparr>diags = ErrorDiagPathF ''id'' ''Parsing App Role ID %q'', Id = id0, calls = h\<rparr>
      | Some (objectId, roleId) \<Rightarrow>
          (let h1 = h @ [Get objectId]
           in case onGet cl h objectId of
                Failed status \<Rightarrow>
                  if status = StatusNotFound
                  then \<lparr>diags = NilDiag, Id = [], calls = h1\<rparr>
                  else \<lparr>diags = ErrorDiagPathF ''application_object_id''
                          ''Retrieving Application with object ID %q'', Id = id0, calls = h1\<rparr>
              | Returned app \<Rightarrow>
                  (case AppRoleFindById app roleId of
                     Inl e \<Rightarrow> \<lparr>diags = ErrorDiagF ''Identifying App Role'', Id = id0, calls = h1\<rparr>
                   | Inr None \<Rightarrow> \<lparr>diags = NilDiag, Id = [], calls = h1\<rparr>
                   | Inr (Some role) \<Rightarrow> \<lparr>diags = NilDiag, Id = id0, calls = h1\<rparr>)))"

text \<open>
  \<open>applicationAppRoleResourceCreateUpdate\<close>. \<open>gen\<close> is the outcome of
  \<open>uuid.GenerateUUID\<close>, consulted only when no \<open>role_id\<close> is configured;
  \<open>isNew\<close> is \<open>d.IsNewResource()\<close>; \<open>id0\<close> is the ID in the local state before
  the call.
\<close>

definition appRoleChange ::
  "Application \<Rightarrow> AppRole \<Rightarrow> string \<Rightarrow> string \<Rightarrow> bool \<Rightarrow> diagnostics + Application" where
  "appRoleChange app role roleId idString isNew =
     (if isNew
      then (case AppendAppRole app role of
              Inl AlreadyExistsError \<Rightarrow>
                Inl (ImportAsExistsDiag ''azuread_application_app_role'' idString)
            | Inl OtherError \<Rightarrow> Inl (ErrorDiagF ''Failed to add App Role'')
            | Inr app1 \<Rightarrow> Inr app1)
      else (case AppRoleFindById app roleId of
              Inl e \<Rightarrow>
                Inl (ErrorDiagPathF ''role_id''
                       ''retrieving App Role with ID %q for Application %q: %+v'')
            | Inr None \<Rightarrow>
                Inl (ErrorDiagPathF ''role_id''
                       ''App Role with ID %q was not found for Application %q'')
            | Inr (Some existing) \<Rightarrow>
                (case UpdateAppRole app role of
                   Inl e \<Rightarrow> Inl (ErrorDiagF ''Updating App Role with ID %q'')
                 | Inr app1 \<Rightarrow> Inr app1)))"

definition applicationAppRoleResourceCreateUpdate ::
  "Application client \<Rightarrow> string option \<Rightarrow> app_role_config \<Rightarrow> bool \<Rightarrow> string
     \<Rightarrow> Application result" where
  "applicationAppRoleResourceCreateUpdate cl gen cfg isNew id0 =
     (let objectId = role_application_object_id cfg
      in case (case GetOk (role_id cfg) of Some v \<Rightarrow> Some v | None \<Rightarrow> gen) of
           None \<Rightarrow>
             \<lparr>diags = ErrorDiagF ''Generating App Role for application with object ID %q'',
              Id = id0, calls = []\<rparr>
         | Some roleId \<Rightarrow>
             (let role = appRoleOfConfig cfg roleId;
                  idString = SubResourceIDString objectId roleId;
                  h1 = [Get objectId]
              in case onGet cl [] objectId of
                   Failed status \<Rightarrow>
                     if status = StatusNotFound
                     then \<lparr>diags = ErrorDiagPathF ''application_object_id''
                             ''Application with object ID %q was not found'', Id = id0, calls = h1\<rparr>
                     else \<lparr>diags = ErrorDiagPathF ''application_object_id''
                             ''Retrieving Application with object ID %q'', Id = id0, calls = h1\<rparr>
                 | Returned app \<Rightarrow>
                     (case appRoleChange app role roleId idString isNew of
                        Inl d \<Rightarrow> \<lparr>diags = d, Id = id0, calls = h1\<rparr>
                      | Inr app1 \<Rightarrow>
                          (let properties = emptyApplication\<lparr>appID := appID app1,
                                                             AppRoles := AppRoles app1\<rparr>;
                               h2 = h1 @ [Update properties]
                           in case onUpdate cl h1 properties of
                                Failed status \<Rightarrow>
                                  \<lparr>diags = ErrorDiagF ''Updating Application with ID %q'',
                                   Id = id0, calls = h2\<rparr>
                              | Returned u \<Rightarrow> applicationAppRoleResourceRead cl h2 idString))))"

text \<open>
  \<open>applicationAppRoleResourceDelete\<close>: the role is disabled and written back,
  then removed and written back again.
\<close>

definition appRoleDisableRemove ::
  "Application client \<Rightarrow> Application call list \<Rightarrow> string \<Rightarrow> Application \<Rightarrow> AppRole
     \<Rightarrow> Application result" where
  "appRoleDisableRemove cl h1 id0 app found =
     (let role = found\<lparr>roleIsEnabled := Some False\<rparr>
      in case UpdateAppRole app role of
           Inl e \<Rightarrow> \<lparr>diags = ErrorDiagF ''Disabling App Role with ID %q'', Id = id0, calls = h1\<rparr>
         | Inr app1 \<Rightarrow>
             (let properties = emptyApplication\<lparr>appID := appID app1, AppRoles := AppRoles app1\<rparr>;
                  h2 = h1 @ [Update properties]
              in case onUpdate cl h1 properties of
                   Failed status \<Rightarrow>
                     \<lparr>diags = ErrorDiagF ''Disabling App Role with ID %q'', Id = id0, calls = h2\<rparr>
                 | Returned u \<Rightarrow>
                     (case RemoveAppRole app1 role of
                        Inl e \<Rightarrow>
                          \<lparr>diags = ErrorDiagF ''Removing App Role with ID %q'', Id = id0, calls = h2\<rparr>
                      | Inr app2 \<Rightarrow>
                          (let properties2 = properties\<lparr>AppRoles := AppRoles app2\<rparr>;
                               h3 = h2 @ [Update properties2]
                           in case onUpdate cl h2 properties2 of
                                Failed status \<Rightarrow>
                                  \<lparr>diags = ErrorDiagF
                                     ''Updating application to remove App Role with ID %q'',
                                   Id = id0, calls = h3\<rparr>
                              | Returned u \<Rightarrow> \<lparr>diags = NilDiag, Id = id0, calls = h3\<rparr>))))"

definition applicationAppRoleResourceDelete ::
  "Application client \<Rightarrow> string \<Rightarrow> Application result" where
  "applicationAppRoleResourceDelete cl id0 =
     (case SubResourceID id0 of
        None \<Rightarrow> \<lparr>diags = ErrorDiagPathF ''id'' ''Parsing App Role ID %q'', Id = id0, calls = []\<rparr>
      | Some (objectId, roleId) \<Rightarrow>
          (let h1 = [Get objectId]
           in case onGet cl [] objectId of
                Failed status \<Rightarrow>
                  \<lparr>diags = ErrorDiagPathF ''application_object_id''
                     ''Retrieving Application with ID %q'', Id = id0, calls = h1\<rparr>
              | Returned app \<Rightarrow>
                  (case AppRoleFindById app roleId of
                     Inl e \<Rightarrow> \<lparr>diags = ErrorDiagF ''Identifying App Role'', Id = id0, calls = h1\<rparr>
                   | Inr None \<Rightarrow> \<lparr>diags = NilDiag, Id = [], calls = h1\<rparr>
                   | Inr (Some role) \<Rightarrow> appRoleDisableRemove cl h1 id0 app role)))"



section \<open>OAuth2 permission scope resource\<close>

record scope_config =
  scope_application_object_id :: string
  scope_admin_consent_description :: string
  scope_admin_consent_display_name :: string
  scope_enabled :: bool
  scope_id :: string
  scope_type :: string
  scope_user_consent_description :: string
  scope_user_consent_display_name :: string
  scope_value :: string

definition scopeOfConfig :: "scope_config \<Rightarrow> string \<Rightarrow> PermissionScope" where
  "scopeOfConfig cfg scopeId =
     \<lparr>scopeID = Some scopeId,
      AdminConsentDescription = Some (scope_admin_consent_description cfg),
      AdminConsentDisplayName = Some (scope_admin_consent_display_name cfg),
      scopeIsEnabled = Some (scope_enabled cfg),
      scopeType = scope_type cfg,
      UserConsentDescription = Some (scope_user_consent_description cfg),
      UserConsentDisplayName = Some (scope_user_consent_display_name cfg),
      scopeValue = Some (scope_value cfg)\<rparr>"

definition applicationOAuth2PermissionScopeResourceRead ::
  "Application client \<Rightarrow> Application call list \<Rightarrow> string \<Rightarrow> Application result" where
  "applicationOAuth2PermissionScopeResourceRead cl h id0 =
     (case SubResourceID id0 of
        None \<Rightarrow>
          \<lparr>diags = ErrorDiagPathF ''id'' ''Parsing OAuth2 Permission ID %q'', Id = id0, calls = h\<rparr>
      | Some (objectId, scopeId) \<Rightarrow>
          (let h1 = h @ [Get objectId]
           in case onGet cl h objectId of
                Failed status \<Rightarrow>
                  if status = StatusNotFound
                  then \<lparr>diags = NilDiag, Id = [], calls = h1\<rparr>
                  else \<lparr>diags = ErrorDiagPathF ''application_object_id''
                          ''Retrieving Application with object ID %q'', Id = id0, calls = h1\<rparr>
              | Returned app \<Rightarrow>
                  (case OAuth2PermissionFindById app scopeId of
                     Inl e \<Rightarrow>
                       \<lparr>diags = ErrorDiagF ''Identifying OAuth2 Permission'', Id = id0, calls = h1\<rparr>
                   | Inr None \<Rightarrow> \<lparr>diags = NilDiag, Id = [], calls = h1\<rparr>
                   | Inr (Some permission) \<Rightarrow> \<lparr>diags = NilDiag, Id = id0, calls = h1\<rparr>)))"

text \<open>
  The change of the fetched application made by
  \<open>applicationOAuth2PermissionScopeResourceCreateUpdate\<close> (lines 394 to 416). On the
  update path the error of the lookup is discarded and the \<open>err\<close> that is tested
  is the nil error of the preceding \<open>Get\<close>, so only the missing entry is
  reported; \<open>app.Api\<close> is dereferenced without a check.
\<close>

definition scopeChange ::
  "Application \<Rightarrow> PermissionScope \<Rightarrow> string \<Rightarrow> string \<Rightarrow> bool \<Rightarrow> diagnostics + Application" where
  "scopeChange app scope scopeId idString isNew =
     (if isNew
      then (let api = (case Api app of None \<Rightarrow> \<lparr>OAuth2PermissionScopes = None\<rparr> | Some a \<Rightarrow> a)
            in case AppendOAuth2PermissionScope api scope of
                 Inl AlreadyExistsError \<Rightarrow>
                   Inl (ImportAsExistsDiag ''azuread_application_oauth2_permission_scope'' idString)
               | Inl OtherError \<Rightarrow> Inl (ErrorDiagF ''Failed to add OAuth2 Permission'')
               | Inr api1 \<Rightarrow> Inr (app\<lparr>Api := Some api1\<rparr>))
      else (let existing = (case OAuth2PermissionFindById app scopeId of
                              Inl e \<Rightarrow> None
                            | Inr found \<Rightarrow> found)
            in case existing of
                 None \<Rightarrow>
                   Inl (ErrorDiagPathF ''scope_id''
                          ''OAuth2 Permission with ID %q was not found for Application %q'')
               | Some ex \<Rightarrow>
                   (case Api app of
                      None \<Rightarrow> Inl GoPanic
                    | Some api \<Rightarrow>
                        (case UpdateOAuth2PermissionScope api scope of
                           Inl e \<Rightarrow> Inl (ErrorDiagF ''Updating OAuth2 Permission with ID %q'')
                         | Inr api1 \<Rightarrow> Inr (app\<lparr>Api := Some api1\<rparr>)))))"

definition scopeProperties :: "Application \<Rightarrow> Application" where
  "scopeProperties app =
     emptyApplication\<lparr>appID := appID app,
                      Api := Some \<lparr>OAuth2PermissionScopes =
                                     (case Api app of None \<Rightarrow> None
                                      | Some api \<Rightarrow> OAuth2PermissionScopes api)\<rparr>\<rparr>"

definition applicationOAuth2PermissionScopeResourceCreateUpdate ::
  "Application client \<Rightarrow> string option \<Rightarrow> scope_config \<Rightarrow> bool \<Rightarrow> string
     \<Rightarrow> Application result" where
  "applicationOAuth2PermissionScopeResourceCreateUpdate cl gen cfg isNew id0 =
     (let objectId = scope_application_object_id cfg
      in case (case GetOk (scope_id cfg) of Some v \<Rightarrow> Some v | None \<Rightarrow> gen) of
           None \<Rightarrow>
             \<lparr>diags = ErrorDiagF
                ''Generating OAuth2 Permission Scope ID for application with object ID %q'',
              Id = id0, calls = []\<rparr>
         | Some scopeId \<Rightarrow>
             (let scope = scopeOfConfig cfg scopeId;
                  idString = SubResourceIDString objectId scopeId;
                  h1 = [Get objectId]
              in case onGet cl [] objectId of
                   Failed status \<Rightarrow>
                     if status = StatusNotFound
                     then \<lparr>diags = ErrorDiagPathF ''application_object_id''
                             ''Application with object ID %q was not found'', Id = id0, calls = h1\<rparr>
                     else \<lparr>diags = ErrorDiagPathF ''application_object_id''
                             ''Retrieving Application with object ID %q'', Id = id0, calls = h1\<rparr>
                 | Returned app \<Rightarrow>
                     (case scopeChange app scope scopeId idString isNew of
                        Inl d \<Rightarrow> \<lparr>diags = d, Id = id0, calls = h1\<rparr>
                      | Inr app1 \<Rightarrow>
                          (let properties = scopeProperties app1;
                               h2 = h1 @ [Update properties]
                           in case onUpdate cl h1 properties of
                                Failed status \<Rightarrow>
                                  \<lparr>diags = ErrorDiagF ''Updating Application with ID %q'',
                                   Id = id0, calls = h2\<rparr>
                              | Returned u \<Rightarrow>
                                  applicationOAuth2PermissionScopeResourceRead cl h2 idString))))"

definition scopeDisableRemove ::
  "Application client \<Rightarrow> Application call list \<Rightarrow> string \<Rightarrow> Application \<Rightarrow> PermissionScope
     \<Rightarrow> Application result" where
  "scopeDisableRemove cl h1 id0 app found =
     (let scope = found\<lparr>scopeIsEnabled := Some False\<rparr>
      in case Api app of
           None \<Rightarrow> \<lparr>diags = GoPanic, Id = id0, calls = h1\<rparr>
         | Some api \<Rightarrow>
             (case UpdateOAuth2PermissionScope api scope of
                Inl e \<Rightarrow>
                  \<lparr>diags = ErrorDiagF ''Disabling OAuth2 Permission with ID %q'', Id = id0, calls = h1\<rparr>
              | Inr api1 \<Rightarrow>
                  (let properties = scopeProperties (app\<lparr>Api := Some api1\<rparr>);
                       h2 = h1 @ [Update properties]
                   in case onUpdate cl h1 properties of
                        Failed status \<Rightarrow>
                          \<lparr>diags = ErrorDiagF ''Disabling OAuth2 Permission with ID %q'',
                           Id = id0, calls = h2\<rparr>
                      | Returned u \<Rightarrow>
                          (case RemoveOAuth2PermissionScope api1 scope of
                             Inl e \<Rightarrow>
                               \<lparr>diags = ErrorDiagF ''Removing OAuth2 Permission with ID %q'',
                                Id = id0, calls = h2\<rparr>
                           | Inr api2 \<Rightarrow>
                               (let properties2 = scopeProperties (app\<lparr>Api := Some api2\<rparr>);
                                    h3 = h2 @ [Update properties2]
                                in case onUpdate cl h2 properties2 of
                                     Failed status \<Rightarrow>
                                       \<lparr>diags = ErrorDiagF ''Disabling OAuth2 Permission with ID %q'',
                                        Id = id0, calls = h3\<rparr>
                                   | Returned u \<Rightarrow>
                                       \<lparr>diags = NilDiag, Id = id0, calls = h3\<rparr>)))))"

definition applicationOAuth2PermissionScopeResourceDelete ::
  "Application client \<Rightarrow> string \<Rightarrow> Application result" where
  "applicationOAuth2PermissionScopeResourceDelete cl id0 =
     (case SubResourceID id0 of
        None \<Rightarrow>
          \<lparr>diags = ErrorDiagPathF ''id'' ''Parsing OAuth2 Permission ID %q'', Id = id0, calls = []\<rparr>
      | Some (objectId, scopeId) \<Rightarrow>
          (let h1 = [Get objectId]
           in case onGet cl [] objectId of
                Failed status \<Rightarrow>
                  \<lparr>diags = ErrorDiagPathF ''application_object_id''
                     ''Retrieving Application with ID %q'', Id = id0, calls = h1\<rparr>
              | Returned app \<Rightarrow>
                  (case OAuth2PermissionFindById app scopeId of
                     Inl e \<Rightarrow>
                       \<lparr>diags = ErrorDiagF ''Identifying OAuth2 Permission'', Id = id0, calls = h1\<rparr>
                   | Inr None \<Rightarrow> \<lparr>diags = NilDiag, Id = [], calls = h1\<rparr>
                   | Inr (Some scope) \<Rightarrow> scopeDisableRemove cl h1 id0 app scope)))"


section \<open>Certificate (key credential) resource\<close>

text \<open>
  The loop of \<open>applicationCertificateResourceCreate\<close> over the application's key
  credentials (lines 138 to 143): \<open>None\<close> when a credential with the new key ID
  is met (the function returns from inside the loop), otherwise the copied list.
\<close>

fun copyCredentials :: "string \<Rightarrow> KeyCredential list \<Rightarrow> KeyCredential list
    \<Rightarrow> KeyCredential list option" where
  "copyCredentials keyId newCredentials [] = Some newCredentials"
| "copyCredentials keyId newCredentials (cred # creds) =
     (if KeyId cred \<noteq> None \<and> KeyId cred = Some keyId then None
      else copyCredentials keyId (newCredentials @ [cred]) creds)"

text \<open>The loop of \<open>applicationCertificateResourceRead\<close> (lines 181 to 186).\<close>

fun findCredential :: "string \<Rightarrow> KeyCredential list \<Rightarrow> KeyCredential option" where
  "findCredential keyId [] = None"
| "findCredential keyId (cred # creds) =
     (if KeyId cred \<noteq> None \<and> KeyId cred = Some keyId then Some cred
      else findCredential keyId creds)"

text \<open>The loop of \<open>applicationCertificateResourceDelete\<close> (lines 235 to 239).\<close>

fun keepCredentials :: "string \<Rightarrow> KeyCredential list \<Rightarrow> KeyCredential list
    \<Rightarrow> KeyCredential list" where
  "keepCredentials keyId newCredentials [] = newCredentials"
| "keepCredentials keyId newCredentials (cred # creds) =
     (if KeyId cred \<noteq> None \<and> KeyId cred \<noteq> Some keyId
      then keepCredentials keyId (newCredentials @ [cred]) creds
      else keepCredentials keyId newCredentials creds)"

definition applicationCertificateResourceRead ::
  "Application client \<Rightarrow> Application call list \<Rightarrow> string \<Rightarrow> Application result" where
  "applicationCertificateResourceRead cl h id0 =
     (case CertificateID id0 of
        None \<Rightarrow>
          \<lparr>diags = ErrorDiagPathF ''id'' ''Parsing certificate credential with ID %q'',
           Id = id0, calls = h\<rparr>
      | Some (objectId, keyId) \<Rightarrow>
          (let h1 = h @ [Get objectId]
           in case onGet cl h objectId of
                Failed status \<Rightarrow>
                  if status = StatusNotFound
                  then \<lparr>diags = NilDiag, Id = [], calls = h1\<rparr>
                  else \<lparr>diags = ErrorDiagPathF ''application_object_id''
                          ''Retrieving Application with object ID %q'', Id = id0, calls = h1\<rparr>
              | Returned app \<Rightarrow>
                  (case findCredential keyId (collection (KeyCredentials app)) of
                     None \<Rightarrow> \<lparr>diags = NilDiag, Id = [], calls = h1\<rparr>
                   | Some credential \<Rightarrow> \<lparr>diags = NilDiag, Id = id0, calls = h1\<rparr>)))"

text \<open>
  \<open>applicationCertificateResourceCreate\<close>. \<open>made\<close> is the outcome of
  \<open>helpers.KeyCredentialForResource\<close>, which is not among the sources: the
  credential built from the configuration (its key ID the configured \<open>key_id\<close> or
  a generated one), or the attribute an error is reported on.
\<close>

definition applicationCertificateResourceCreate ::
  "Application client \<Rightarrow> string + KeyCredential \<Rightarrow> string \<Rightarrow> string \<Rightarrow> Application result" where
  "applicationCertificateResourceCreate cl made objectId id0 =
     (case made of
        Inl attr \<Rightarrow>
          \<lparr>diags = ErrorDiagPathF attr
             ''Generating certificate credentials for application with object ID %q'',
           Id = id0, calls = []\<rparr>
      | Inr credential \<Rightarrow>
          (case KeyId credential of
             None \<Rightarrow>
               \<lparr>diags = ErrorDiagF ''Creating certificate credential'', Id = id0, calls = []\<rparr>
           | Some keyId \<Rightarrow>
               (let idString = CredentialIDString objectId ''certificate'' keyId;
                    h1 = [Get objectId]
                in case onGet cl [] objectId of
                     Failed status \<Rightarrow>
                       if status = StatusNotFound
                       then \<lparr>diags = ErrorDiagPathF ''application_object_id''
                               ''Application with object ID %q was not found'',
                             Id = id0, calls = h1\<rparr>
                       else \<lparr>diags = ErrorDiagPathF ''application_object_id''
                               ''Retrieving application with object ID %q'', Id = id0, calls = h1\<rparr>
                   | Returned app \<Rightarrow>
                       (case copyCredentials keyId [] (collection (KeyCredentials app)) of
                          None \<Rightarrow>
                            \<lparr>diags = ImportAsExistsDiag ''azuread_application_certificate'' idString,
                             Id = id0, calls = h1\<rparr>
                        | Some copied \<Rightarrow>
                            (let newCredentials = copied @ [credential];
                                 properties = emptyApplication\<lparr>appID := Some objectId,
                                                 KeyCredentials := Some newCredentials\<rparr>;
                                 h2 = h1 @ [Update properties]
                             in case onUpdate cl h1 properties of
                                  Failed status \<Rightarrow>
                                    \<lparr>diags = ErrorDiagF
                                       ''Adding certificate for application with object ID %q'',
                                     Id = id0, calls = h2\<rparr>
                                | Returned u \<Rightarrow>
                                    applicationCertificateResourceRead cl h2 idString)))))"

definition applicationCertificateResourceDelete ::
  "Application client \<Rightarrow> string \<Rightarrow> Application result" where
  "applicationCertificateResourceDelete cl id0 =
     (case CertificateID id0 of
        None \<Rightarrow>
          \<lparr>diags = ErrorDiagPathF ''id'' ''Parsing certificate credential with ID %q'',
           Id = id0, calls = []\<rparr>
      | Some (objectId, keyId) \<Rightarrow>
          (let h1 = [Get objectId]
           in case onGet cl [] objectId of
                Failed status \<Rightarrow>
                  if status = StatusNotFound
                  then \<lparr>diags = ErrorDiagPathF ''application_object_id''
                          ''Retrieving Application with ID %q'', Id = id0, calls = h1\<rparr>
                  else \<lparr>diags = ErrorDiagPathF ''application_object_id''
                          ''Retrieving application with object ID %q'', Id = id0, calls = h1\<rparr>
              | Returned app \<Rightarrow>
                  (let newCredentials = keepCredentials keyId [] (collection (KeyCredentials app));
                       properties = emptyApplication\<lparr>appID := Some objectId,
                                       KeyCredentials := Some newCredentials\<rparr>;
                       h2 = h1 @ [Update properties]
                   in case onUpdate cl h1 properties of
                        Failed status \<Rightarrow>
                          \<lparr>diags = ErrorDiagF
                             ''Removing certificate credential %q from application with object ID %q'',
                           Id = id0, calls = h2\<rparr>
                      | Returned u \<Rightarrow> \<lparr>diags = NilDiag, Id = id0, calls = h2\<rparr>)))"



section \<open>Application resource\<close>

text \<open>
  The \<open>app_role\<close> and \<open>oauth2_permission_scope\<close> blocks of the application
  resource, as the maps the schema decodes them into.
\<close>

record app_role_block =
  block_role_id :: string
  block_role_allowed_member_types :: "string list"
  block_role_description :: string
  block_role_display_name :: string
  block_role_enabled :: bool
  block_role_value :: string

record scope_block =
  block_scope_id :: string
  block_scope_admin_consent_description :: string
  block_scope_admin_consent_display_name :: string
  block_scope_enabled :: bool
  block_scope_type :: string
  block_scope_user_consent_description :: string
  block_scope_user_consent_display_name :: string
  block_scope_value :: string

record application_config =
  app_display_name :: string
  app_prevent_duplicate_names :: bool
  app_role :: "app_role_block list"
  oauth2_permission_scope :: "scope_block list"
  app_owners :: "string list"
  has_change_app_role :: bool
  has_change_oauth2_permission_scope :: bool
  has_change_app_owners :: bool

text \<open>
  \<open>applicationValidateRolesScopes\<close>: the non-empty values of the roles, then of
  the scopes, are collected; each value is compared with those met before it.
  The result is the duplicate value of the error, or \<open>None\<close> for \<open>nil\<close>.
\<close>

fun roleValues :: "string list \<Rightarrow> app_role_block list \<Rightarrow> string list" where
  "roleValues vals [] = vals"
| "roleValues vals (role # roles) =
     (let val = block_role_value role
      in if val \<noteq> [] then roleValues (vals @ [val]) roles else roleValues vals roles)"

fun scopeValues :: "string list \<Rightarrow> scope_block list \<Rightarrow> string list" where
  "scopeValues vals [] = vals"
| "scopeValues vals (scope # scopes) =
     (let val = block_scope_value scope
      in if val \<noteq> [] then scopeValues (vals @ [val]) scopes else scopeValues vals scopes)"

fun isEncountered :: "string list \<Rightarrow> string \<Rightarrow> bool" where
  "isEncountered [] val = False"
| "isEncountered (en # ens) val = (if en = val then True else isEncountered ens val)"

fun firstDuplicate :: "string list \<Rightarrow> string list \<Rightarrow> string option" where
  "firstDuplicate encountered [] = None"
| "firstDuplicate encountered (val # vals) =
     (if isEncountered encountered val then Some val
      else firstDuplicate (encountered @ [val]) vals)"

definition applicationValidateRolesScopes ::
  "app_role_block list \<Rightarrow> scope_block list \<Rightarrow> string option" where
  "applicationValidateRolesScopes appRoles oauth2Permissions =
     (let vals = scopeValues (roleValues [] appRoles) oauth2Permissions
      in firstDuplicate [] vals)"

definition expandAppRole :: "app_role_block \<Rightarrow> AppRole" where
  "expandAppRole appRole =
     \<lparr>roleID = Some (block_role_id appRole),
      AllowedMemberTypes = Some (block_role_allowed_member_types appRole),
      roleDescription = Some (block_role_description appRole),
      roleDisplayName = Some (block_role_display_name appRole),
      roleIsEnabled = Some (block_role_enabled appRole),
      roleValue = Some (block_role_value appRole)\<rparr>"

definition expandApplicationAppRoles :: "app_role_block list \<Rightarrow> AppRole list option" where
  "expandApplicationAppRoles input =
     (if length input = 0 then None else Some (map expandAppRole input))"

definition expandScope :: "scope_block \<Rightarrow> PermissionScope" where
  "expandScope sc =
     \<lparr>scopeID = Some (block_scope_id sc),
      AdminConsentDescription = Some (block_scope_admin_consent_description sc),
      AdminConsentDisplayName = Some (block_scope_admin_consent_display_name sc),
      scopeIsEnabled = Some (block_scope_enabled sc),
      scopeType = block_scope_type sc,
      UserConsentDescription = Some (block_scope_user_consent_description sc),
      UserConsentDisplayName = Some (block_scope_user_consent_display_name sc),
      scopeValue = Some (block_scope_value sc)\<rparr>"

definition expandApplicationOAuth2Permissions :: "scope_block list \<Rightarrow> PermissionScope list option" where
  "expandApplicationOAuth2Permissions input = Some (map expandScope input)"

definition applicationResourceRead ::
  "Application client \<Rightarrow> Application call list \<Rightarrow> string \<Rightarrow> Application result" where
  "applicationResourceRead cl h id0 =
     (let h1 = h @ [Get id0]
      in case onGet cl h id0 of
           Failed status \<Rightarrow>
             if status = StatusNotFound
             then \<lparr>diags = NilDiag, Id = [], calls = h1\<rparr>
             else \<lparr>diags = ErrorDiagPathF ''id'' ''Retrieving Application with object ID %q'',
                   Id = id0, calls = h1\<rparr>
         | Returned app \<Rightarrow>
             (case appID app of
                None \<Rightarrow> \<lparr>diags = GoPanic, Id = id0, calls = h1\<rparr>
              | Some aid \<Rightarrow>
                  (let h2 = h1 @ [ListOwners aid]
                   in case onListOwners cl h1 aid of
                        Failed status \<Rightarrow>
                          \<lparr>diags = ErrorDiagPathF ''owners''
                             ''Could not retrieve owners for application with object ID %q'',
                           Id = id0, calls = h2\<rparr>
                      | Returned owners \<Rightarrow> \<lparr>diags = NilDiag, Id = id0, calls = h2\<rparr>)))"

text \<open>
  The duplicate-name check at the head of \<open>applicationResourceCreate\<close> and
  \<open>applicationResourceUpdate\<close>; \<open>self\<close> is the ID an update tolerates.
\<close>

definition applicationCheckName ::
  "Application client \<Rightarrow> string \<Rightarrow> string option \<Rightarrow> diagnostics \<times> Application call list" where
  "applicationCheckName cl displayName self =
     (let h1 = [ApplicationFindByName displayName]
      in case onFindByName cl [] displayName of
           Failed status \<Rightarrow>
             (ErrorDiagPathF ''display_name'' ''Could not check for existing application(s)'', h1)
         | Returned None \<Rightarrow> (NilDiag, h1)
         | Returned (Some existingApp) \<Rightarrow>
             (case appID existingApp of
                None \<Rightarrow> (ErrorDiagF ''Bad API response'', h1)
              | Some existingId \<Rightarrow>
                  if self = Some existingId then (NilDiag, h1)
                  else (ImportAsDuplicateDiag ''azuread_application'' existingId displayName, h1)))"

definition applicationCreateProperties :: "application_config \<Rightarrow> Application" where
  "applicationCreateProperties cfg =
     emptyApplication
       \<lparr>appDisplayName := Some (app_display_name cfg),
        AppRoles := (if app_role cfg \<noteq> [] then expandApplicationAppRoles (app_role cfg) else None),
        Api := Some \<lparr>OAuth2PermissionScopes =
                       (if oauth2_permission_scope cfg \<noteq> []
                        then expandApplicationOAuth2Permissions (oauth2_permission_scope cfg)
                        else None)\<rparr>\<rparr>"

definition applicationResourceCreate ::
  "Application client \<Rightarrow> application_config \<Rightarrow> string \<Rightarrow> Application result" where
  "applicationResourceCreate cl cfg id0 =
     (let displayName = app_display_name cfg;
          checked = (if app_prevent_duplicate_names cfg
                     then applicationCheckName cl displayName None
                     else (NilDiag, []));
          h1 = snd checked
      in if fst checked \<noteq> NilDiag then \<lparr>diags = fst checked, Id = id0, calls = h1\<rparr>
         else (case applicationValidateRolesScopes (app_role cfg) (oauth2_permission_scope cfg) of
                 Some dup \<Rightarrow>
                   \<lparr>diags = ErrorDiagPathF ''app_role''
                      ''Checking for duplicate app role / oauth2_permissions values'',
                    Id = id0, calls = h1\<rparr>
               | None \<Rightarrow>
                   (let properties = applicationCreateProperties cfg;
                        h2 = h1 @ [Create properties]
                    in case onCreate cl h1 properties of
                         Failed status \<Rightarrow>
                           \<lparr>diags = ErrorDiagF ''Could not create application'', Id = id0, calls = h2\<rparr>
                       | Returned app \<Rightarrow>
                           (case appID app of
                              None \<Rightarrow>
                                \<lparr>diags = ErrorDiagF ''Object ID returned for application is nil/empty'',
                                 Id = id0, calls = h2\<rparr>
                            | Some aid \<Rightarrow>
                                if aid = []
                                then \<lparr>diags = ErrorDiagF
                                        ''Object ID returned for application is nil/empty'',
                                      Id = id0, calls = h2\<rparr>
                                else if app_owners cfg \<noteq> []
                                then (let h3 = h2 @ [ApplicationSetOwners app (app_owners cfg)]
                                      in case onSetOwners cl h2 app (app_owners cfg) of
                                           Failed status \<Rightarrow>
                                             \<lparr>diags = ErrorDiagPathF ''owners''
                                                ''Could not set owners for application with object ID: %q'',
                                              Id = aid, calls = h3\<rparr>
                                         | Returned u \<Rightarrow> applicationResourceRead cl h3 aid)
                                else applicationResourceRead cl h2 aid))))"

definition applicationUpdateProperties :: "application_config \<Rightarrow> string \<Rightarrow> Application" where
  "applicationUpdateProperties cfg id0 =
     emptyApplication
       \<lparr>appID := Some id0,
        appDisplayName := Some (app_display_name cfg),
        Api := Some \<lparr>OAuth2PermissionScopes = None\<rparr>\<rparr>"

text \<open>
  The calls of \<open>applicationResourceUpdate\<close> after its update call (lines 519 to
  541): the helpers that set app roles, permission scopes and owners, each only
  when its attribute has changed.
\<close>

definition applicationUpdateCollections ::
  "Application client \<Rightarrow> Application call list \<Rightarrow> application_config \<Rightarrow> Application \<Rightarrow> string
     \<Rightarrow> Application result" where
  "applicationUpdateCollections cl h2 cfg properties id0 =
     (let roles = (if has_change_app_role cfg
                   then (let p = properties\<lparr>AppRoles := expandApplicationAppRoles (app_role cfg)\<rparr>
                         in case onSetAppRoles cl h2 p of
                              Failed status \<Rightarrow>
                                (ErrorDiagPathF ''app_role'' ''Could not set App Roles'',
                                 h2 @ [ApplicationSetAppRoles p])
                            | Returned u \<Rightarrow> (NilDiag, h2 @ [ApplicationSetAppRoles p]))
                   else (NilDiag, h2));
          h3 = snd roles
      in if fst roles \<noteq> NilDiag then \<lparr>diags = fst roles, Id = id0, calls = h3\<rparr>
         else (let scopes = (if has_change_oauth2_permission_scope cfg
                             then (let p = properties\<lparr>Api := Some \<lparr>OAuth2PermissionScopes =
                                             expandApplicationOAuth2Permissions
                                               (oauth2_permission_scope cfg)\<rparr>\<rparr>
                                   in case onSetScopes cl h3 p of
                                        Failed status \<Rightarrow>
                                          (ErrorDiagPathF ''oauth2_permissions''
                                             ''Could not set OAuth2 Permission Scopes'',
                                           h3 @ [ApplicationSetOAuth2PermissionScopes p])
                                      | Returned u \<Rightarrow>
                                          (NilDiag, h3 @ [ApplicationSetOAuth2PermissionScopes p]))
                             else (NilDiag, h3));
                   h4 = snd scopes
               in if fst scopes \<noteq> NilDiag then \<lparr>diags = fst scopes, Id = id0, calls = h4\<rparr>
                  else if has_change_app_owners cfg
                  then (case onSetOwners cl h4 properties (app_owners cfg) of
                          Failed status \<Rightarrow>
                            \<lparr>diags = ErrorDiagPathF ''owners''
                               ''Could not set owners for application with object ID: %q'',
                             Id = id0,
                             calls = h4 @ [ApplicationSetOwners properties (app_owners cfg)]\<rparr>
                        | Returned u \<Rightarrow>
                            \<lparr>diags = NilDiag, Id = id0,
                             calls = h4 @ [ApplicationSetOwners properties (app_owners cfg)]\<rparr>)
                  else \<lparr>diags = NilDiag, Id = id0, calls = h4\<rparr>))"

text \<open>
  \<open>applicationResourceUpdate\<close>. The roles and scopes are validated only when the
  \<open>oauth2_permission_scope\<close> block has changed (lines 466 to 475).
\<close>

definition applicationResourceUpdate ::
  "Application client \<Rightarrow> application_config \<Rightarrow> string \<Rightarrow> Application result" where
  "applicationResourceUpdate cl cfg id0 =
     (let displayName = app_display_name cfg;
          checked = (if app_prevent_duplicate_names cfg
                     then applicationCheckName cl displayName (Some id0)
                     else (NilDiag, []));
          h1 = snd checked
      in if fst checked \<noteq> NilDiag then \<lparr>diags = fst checked, Id = id0, calls = h1\<rparr>
         else (let oauth2PermissionScopes =
                     (if has_change_oauth2_permission_scope cfg
                      then Some (oauth2_permission_scope cfg) else None);
                   invalid = (case oauth2PermissionScopes of
                                None \<Rightarrow> None
                              | Some scopes \<Rightarrow> applicationValidateRolesScopes (app_role cfg) scopes)
               in case invalid of
                    Some dup \<Rightarrow>
                      \<lparr>diags = ErrorDiagPathF ''app_role''
                         ''Checking for duplicate app role / oauth2_permissions values'',
                       Id = id0, calls = h1\<rparr>
                  | None \<Rightarrow>
                      (let properties = applicationUpdateProperties cfg id0;
                           h2 = h1 @ [Update properties]
                       in case onUpdate cl h1 properties of
                            Failed status \<Rightarrow>
                              \<lparr>diags = ErrorDiagF ''Could not update application with ID: %q'',
                               Id = id0, calls = h2\<rparr>
                          | Returned u \<Rightarrow> applicationUpdateCollections cl h2 cfg properties id0)))"


section \<open>The claims in the specification's words\<close>

text \<open>
  The filters of the domains data source as the claim words them: a flag that is
  set must not be false on the entry, and an absent (nil) flag passes.
\<close>

definition satisfiesFilters :: "domains_config \<Rightarrow> Domain \<Rightarrow> bool" where
  "satisfiesFilters cfg v =
     ((only_default cfg \<longrightarrow> IsDefault v \<noteq> Some False)
    \<and> (only_initial cfg \<longrightarrow> IsInitial v \<noteq> Some False)
    \<and> (\<not> include_unverified cfg \<longrightarrow> IsVerified v \<noteq> Some False))"

text \<open>The combined non-empty values of the roles and scopes, as the claim words them.\<close>

definition combinedValues :: "app_role_block list \<Rightarrow> scope_block list \<Rightarrow> string list" where
  "combinedValues appRoles oauth2Permissions =
     filter (\<lambda>v. v \<noteq> [])
       (map block_role_value appRoles @ map block_scope_value oauth2Permissions)"


section \<open>Concrete remotes and configurations\<close>

definition exampleDomains :: "Domain list" where
  "exampleDomains =
     [\<lparr>domainID = Some ''contoso.com'', AuthenticationType = Some ''Managed'',
       IsDefault = Some True, IsInitial = Some False, IsVerified = Some True\<rparr>,
      \<lparr>domainID = Some ''contoso.onmicrosoft.com'', AuthenticationType = Some ''Managed'',
       IsDefault = Some False, IsInitial = Some True, IsVerified = Some True\<rparr>,
      \<lparr>domainID = Some ''pending.example'', AuthenticationType = None,
       IsDefault = None, IsInitial = None, IsVerified = Some False\<rparr>]"

definition onlyDefaultConfig :: domains_config where
  "onlyDefaultConfig = \<lparr>only_default = True, only_initial = False, include_unverified = True\<rparr>"

definition onlyInitialDefaultConfig :: domains_config where
  "onlyInitialDefaultConfig = \<lparr>only_default = True, only_initial = True, include_unverified = False\<rparr>"

text \<open>A remote on which every call succeeds; \<open>obj\<close> is the object it serves.\<close>

definition servingClient :: "'p \<Rightarrow> 'p client" where
  "servingClient obj =
     \<lparr>onCheckName = (\<lambda>h n e. Returned None),
      onFindByName = (\<lambda>h n. Returned None),
      onCreate = (\<lambda>h p. Returned obj),
      onWait = (\<lambda>h i. Returned ()),
      onGet = (\<lambda>h i. Returned obj),
      onUpdate = (\<lambda>h p. Returned ()),
      onDelete = (\<lambda>h i. Returned ()),
      onListOwners = (\<lambda>h i. Returned []),
      onListMembers = (\<lambda>h i. Returned []),
      onAddMembers = (\<lambda>h p. Returned ()),
      onRemoveMembers = (\<lambda>h i xs. Returned ()),
      onAddOwners = (\<lambda>h p. Returned ()),
      onRemoveOwners = (\<lambda>h i xs. Returned ()),
      onSetOwners = (\<lambda>h p xs. Returned ()),
      onSetAppRoles = (\<lambda>h p. Returned ()),
      onSetScopes = (\<lambda>h p. Returned ())\<rparr>"

text \<open>The same remote, but every \<open>Get\<close> fails with the given HTTP status.\<close>

definition failingGetClient :: "'p \<Rightarrow> int \<Rightarrow> 'p client" where
  "failingGetClient obj status = (servingClient obj)\<lparr>onGet := (\<lambda>h i. Failed status)\<rparr>"

definition aliceConfig :: user_config where
  "aliceConfig =
     \<lparr>user_principal_name = ''alice@contoso.com'', mail_nickname = [],
      account_enabled = True, user_display_name = ''Alice'',
      force_password_change = False, password = ''secret''\<rparr>"

definition aliceUser :: User where
  "aliceUser =
     \<lparr>userID = Some ''u-1'', AccountEnabled = Some True, userDisplayName = Some ''Alice'',
      MailNickname = Some ''alice'', ForceChangePasswordNextSignIn = Some False,
      Password = None, UserPrincipalName = Some ''alice@contoso.com''\<rparr>"

definition exampleGroup :: Group where
  "exampleGroup =
     \<lparr>groupID = Some ''g-1'', groupDisplayName = Some ''Staff'', groupDescription = None,
      groupMailNickname = Some ''staff'', SecurityEnabled = Some True, MailEnabled = Some False,
      Members = [], Owners = []\<rparr>"

text \<open>A group remote whose current members and owners are \<open>A\<close>, \<open>B\<close>, \<open>C\<close>.\<close>

definition abcClient :: "Group client" where
  "abcClient = (servingClient exampleGroup)
     \<lparr>onListOwners := (\<lambda>h i. Returned [''A'', ''B'', ''C'']),
      onListMembers := (\<lambda>h i. Returned [''A'', ''B'', ''C''])\<rparr>"

text \<open>
  An update of that group to the members and owners \<open>B\<close>, \<open>C\<close>, \<open>D\<close>, the last
  listed twice.
\<close>

definition bcdConfig :: group_config where
  "bcdConfig =
     \<lparr>group_display_name = ''Staff'', group_description = [],
      group_members = Some [''B'', ''C'', ''D'', ''D''],
      group_owners = Some [''B'', ''C'', ''D'', ''D''],
      group_prevent_duplicate_names = False,
      has_change_display_name = False, has_change_description = False,
      has_change_members = True, has_change_owners = True\<rparr>"

definition adminRole :: AppRole where
  "adminRole =
     \<lparr>roleID = Some ''role-1'', AllowedMemberTypes = Some [''User''],
      roleDescription = Some ''Administrators'', roleDisplayName = Some ''Admin'',
      roleIsEnabled = Some True, roleValue = Some ''admin''\<rparr>"

definition readScope :: PermissionScope where
  "readScope =
     \<lparr>scopeID = Some ''scope-1'', AdminConsentDescription = Some ''Read'',
      AdminConsentDisplayName = Some ''Read'', scopeIsEnabled = Some True, scopeType = ''User'',
      UserConsentDescription = Some ''Read'', UserConsentDisplayName = Some ''Read'',
      scopeValue = Some ''read''\<rparr>"

definition signingKey :: KeyCredential where
  "signingKey =
     \<lparr>KeyId = Some ''key-1'', credentialType = ''AsymmetricX509Cert'',
      credentialUsage = ''Verify'', credentialKey = None\<rparr>"

definition exampleApp :: Application where
  "exampleApp =
     \<lparr>appID = Some ''app-1'', appDisplayName = Some ''Portal'',
      AppRoles = Some [adminRole],
      Api = Some \<lparr>OAuth2PermissionScopes = Some [readScope]\<rparr>,
      KeyCredentials = Some [signingKey]\<rparr>"

definition roleConfig :: app_role_config where
  "roleConfig =
     \<lparr>role_application_object_id = ''app-1'', role_allowed_member_types = [''User''],
      role_description = ''Administrators'', role_display_name = ''Admin'',
      role_enabled = True, role_id = ''role-1'', role_value = ''admin''\<rparr>"

definition scopeConfig :: scope_config where
  "scopeConfig =
     \<lparr>scope_application_object_id = ''app-1'', scope_admin_consent_description = ''Read'',
      scope_admin_consent_display_name = ''Read'', scope_enabled = True,
      scope_id = ''scope-1'', scope_type = ''User'', scope_user_consent_description = ''Read'',
      scope_user_consent_display_name = ''Read'', scope_value = ''read''\<rparr>"

definition readerBlock :: app_role_block where
  "readerBlock =
     \<lparr>block_role_id = ''role-2'', block_role_allowed_member_types = [''User''],
      block_role_description = ''Readers'', block_role_display_name = ''Reader'',
      block_role_enabled = True, block_role_value = ''read''\<rparr>"

definition viewerBlock :: app_role_block where
  "viewerBlock =
     \<lparr>block_role_id = ''role-3'', block_role_allowed_member_types = [''User''],
      block_role_description = ''Viewers'', block_role_display_name = ''Viewer'',
      block_role_enabled = True, block_role_value = ''read''\<rparr>"

definition readBlock :: scope_block where
  "readBlock =
     \<lparr>block_scope_id = ''scope-1'', block_scope_admin_consent_description = ''Read'',
      block_scope_admin_consent_display_name = ''Read'', block_scope_enabled = True,
      block_scope_type = ''User'', block_scope_user_consent_description = ''Read'',
      block_scope_user_consent_display_name = ''Read'', block_scope_value = ''read''\<rparr>"

text \<open>An application whose only change is a second role with the value of the first.\<close>

definition dupRolesConfig :: application_config where
  "dupRolesConfig =
     \<lparr>app_display_name = ''Portal'', app_prevent_duplicate_names = False,
      app_role = [readerBlock, viewerBlock], oauth2_permission_scope = [],
      app_owners = [], has_change_app_role = True,
      has_change_oauth2_permission_scope = False, has_change_app_owners = False\<rparr>"

text \<open>A role and a scope with the same value, the scope block changed.\<close>

definition dupRoleScopeConfig :: application_config where
  "dupRoleScopeConfig =
     \<lparr>app_display_name = ''Portal'', app_prevent_duplicate_names = False,
      app_role = [readerBlock], oauth2_permission_scope = [readBlock],
      app_owners = [], has_change_app_role = False,
      has_change_oauth2_permission_scope = True, has_change_app_owners = False\<rparr>"

definition plainAppConfig :: application_config where
  "plainAppConfig =
     \<lparr>app_display_name = ''Portal'', app_prevent_duplicate_names = False,
      app_role = [], oauth2_permission_scope = [],
      app_owners = [], has_change_app_role = False,
      has_change_oauth2_permission_scope = False, has_change_app_owners = False\<rparr>"


section \<open>Verified properties\<close>

subsection \<open>Auxiliary facts\<close>

lemma Split_first: "\<exists>ps. Split s sep = takeWhile (\<lambda>c. c \<noteq> sep) s # ps"
  by (induction s) (auto split: list.splits)

lemma createMailNickName_eq:
  "createMailNickName cfg =
     Some (if mail_nickname cfg = []
           then takeWhile (\<lambda>c. c \<noteq> CHR ''@'') (user_principal_name cfg)
           else mail_nickname cfg)"
  using Split_first [of "user_principal_name cfg" "CHR ''@''"]
  by (auto simp: createMailNickName_def Let_def)

lemma domainsLoop_filter:
  "domainsLoop cfg acc vs = acc @ filter (\<lambda>v. \<not> skipDomain cfg v) vs"
  by (induction vs arbitrary: acc) auto

lemma skipDomain_iff: "skipDomain cfg v \<longleftrightarrow> \<not> satisfiesFilters cfg v"
  by (auto simp: skipDomain_def satisfiesFilters_def)

lemma domainsLoop_satisfies:
  "domainsLoop cfg [] vs = filter (satisfiesFilters cfg) vs"
  by (simp add: domainsLoop_filter skipDomain_iff)


subsection \<open>Domains data source: the filters\<close>

text \<open>
  Claim C9. A read of the domains data source that succeeds returns exactly the
  listed domains that satisfy the active filters, in the order listed: with
  \<open>only_default\<close> the flag \<open>is_default\<close> of a returned entry is not false, with
  \<open>only_initial\<close> its \<open>is_initial\<close> is not false, without \<open>include_unverified\<close>
  its \<open>is_verified\<close> is not false, and an entry whose flags are absent is always
  returned. The returned list is never empty: when no listed domain passes the
  filters the read ends with an error diagnostic and sets no list.
\<close>

theorem domainsDataSourceRead_filters:
  "(domainsDiags (domainsDataSourceRead listed tenantId cfg id0) = NilDiag \<longrightarrow>
      (\<exists>rs ds. listed = Returned (Some rs)
         \<and> domainsSet (domainsDataSourceRead listed tenantId cfg id0) = Some ds
         \<and> ds = filter (satisfiesFilters cfg) rs \<and> ds \<noteq> []
         \<and> (\<forall>v \<in> set ds.
               (only_default cfg \<longrightarrow> IsDefault v \<noteq> Some False)
             \<and> (only_initial cfg \<longrightarrow> IsInitial v \<noteq> Some False)
             \<and> (\<not> include_unverified cfg \<longrightarrow> IsVerified v \<noteq> Some False))
         \<and> (\<forall>v \<in> set rs. IsDefault v = None \<and> IsInitial v = None \<and> IsVerified v = None
               \<longrightarrow> v \<in> set ds)))
   \<and> (\<forall>rs. listed = Returned (Some rs) \<and> filter (satisfiesFilters cfg) rs = [] \<longrightarrow>
         domainsDiags (domainsDataSourceRead listed tenantId cfg id0)
           = ErrorDiagF ''No domains found for the provided filters''
       \<and> domainsSet (domainsDataSourceRead listed tenantId cfg id0) = None)"
proof (intro conjI impI allI)
  assume ok: "domainsDiags (domainsDataSourceRead listed tenantId cfg id0) = NilDiag"
  then obtain rs where rs: "listed = Returned (Some rs)"
    by (auto simp: domainsDataSourceRead_def Let_def split: response.splits option.splits)
  let ?ds = "filter (satisfiesFilters cfg) rs"
  from ok rs have ne: "?ds \<noteq> []"
    by (auto simp: domainsDataSourceRead_def Let_def domainsLoop_satisfies split: if_splits)
  with rs have set: "domainsSet (domainsDataSourceRead listed tenantId cfg id0) = Some ?ds"
    by (simp add: domainsDataSourceRead_def Let_def domainsLoop_satisfies)
  have sat: "\<forall>v \<in> set ?ds.
               (only_default cfg \<longrightarrow> IsDefault v \<noteq> Some False)
             \<and> (only_initial cfg \<longrightarrow> IsInitial v \<noteq> Some False)
             \<and> (\<not> include_unverified cfg \<longrightarrow> IsVerified v \<noteq> Some False)"
    by (simp add: satisfiesFilters_def)
  have nil: "\<forall>v \<in> set rs. IsDefault v = None \<and> IsInitial v = None \<and> IsVerified v = None
               \<longrightarrow> v \<in> set ?ds"
    by (simp add: satisfiesFilters_def)
  from rs set ne sat nil
  show "\<exists>rs ds. listed = Returned (Some rs)
         \<and> domainsSet (domainsDataSourceRead listed tenantId cfg id0) = Some ds
         \<and> ds = filter (satisfiesFilters cfg) rs \<and> ds \<noteq> []
         \<and> (\<forall>v \<in> set ds.
               (only_default cfg \<longrightarrow> IsDefault v \<noteq> Some False)
             \<and> (only_initial cfg \<longrightarrow> IsInitial v \<noteq> Some False)
             \<and> (\<not> include_unverified cfg \<longrightarrow> IsVerified v \<noteq> Some False))
         \<and> (\<forall>v \<in> set rs. IsDefault v = None \<and> IsInitial v = None \<and> IsVerified v = None
               \<longrightarrow> v \<in> set ds)"
    by blast
next
  fix rs
  assume "listed = Returned (Some rs) \<and> filter (satisfiesFilters cfg) rs = []"
  then show "domainsDiags (domainsDataSourceRead listed tenantId cfg id0)
           = ErrorDiagF ''No domains found for the provided filters''"
    by (simp add: domainsDataSourceRead_def Let_def domainsLoop_satisfies)
next
  fix rs
  assume "listed = Returned (Some rs) \<and> filter (satisfiesFilters cfg) rs = []"
  then show "domainsSet (domainsDataSourceRead listed tenantId cfg id0) = None"
    by (simp add: domainsDataSourceRead_def Let_def domainsLoop_satisfies)
qed

theorem domainsDataSourceRead_filters_witness:
  "domainsDiags (domainsDataSourceRead (Returned (Some exampleDomains)) ''t1'' onlyDefaultConfig [])
     = NilDiag
   \<and> domainsSet (domainsDataSourceRead (Returned (Some exampleDomains)) ''t1'' onlyDefaultConfig [])
     = Some [exampleDomains ! 0, exampleDomains ! 2]
   \<and> filter (satisfiesFilters onlyInitialDefaultConfig) exampleDomains = []
   \<and> domainsDiags (domainsDataSourceRead (Returned (Some exampleDomains)) ''t1''
        onlyInitialDefaultConfig [])
     = ErrorDiagF ''No domains found for the provided filters''"
proof -
  have ok: "domainsDiags (domainsDataSourceRead (Returned (Some exampleDomains)) ''t1''
              onlyDefaultConfig []) = NilDiag"
    by (simp add: domainsDataSourceRead_def exampleDomains_def onlyDefaultConfig_def
        skipDomain_def Let_def)
  have flt: "filter (satisfiesFilters onlyDefaultConfig) exampleDomains
               = [exampleDomains ! 0, exampleDomains ! 2]"
    by (simp add: satisfiesFilters_def exampleDomains_def onlyDefaultConfig_def)
  have none: "filter (satisfiesFilters onlyInitialDefaultConfig) exampleDomains = []"
    by (simp add: satisfiesFilters_def exampleDomains_def onlyInitialDefaultConfig_def)
  from domainsDataSourceRead_filters
         [of "Returned (Some exampleDomains)" "''t1''" onlyDefaultConfig "[]"] ok flt
  have a: "domainsSet (domainsDataSourceRead (Returned (Some exampleDomains)) ''t1''
             onlyDefaultConfig []) = Some [exampleDomains ! 0, exampleDomains ! 2]"
    by auto
  from domainsDataSourceRead_filters
         [of "Returned (Some exampleDomains)" "''t1''" onlyInitialDefaultConfig "[]"] none
  have b: "domainsDiags (domainsDataSourceRead (Returned (Some exampleDomains)) ''t1''
             onlyInitialDefaultConfig [])
           = ErrorDiagF ''No domains found for the provided filters''"
    by blast
  from ok a none b show ?thesis by blast
qed


subsection \<open>User creation: the default mail nickname\<close>

text \<open>
  Claim C10. Creating a user always starts with the create call, whose payload
  carries the configured UPN. When the configured \<open>mail_nickname\<close> is empty, the
  payload's mail nickname is the part of the UPN before the first \<open>@\<close> (the whole
  UPN when it has none); otherwise it is the configured \<open>mail_nickname\<close>,
  unchanged.
\<close>

theorem userResourceCreate_mail_nickname:
  "\<exists>p rest. calls (userResourceCreate cl cfg id0) = Create p # rest
     \<and> UserPrincipalName p = Some (user_principal_name cfg)
     \<and> (mail_nickname cfg = [] \<longrightarrow>
          MailNickname p = Some (takeWhile (\<lambda>c. c \<noteq> CHR ''@'') (user_principal_name cfg)))
     \<and> (mail_nickname cfg \<noteq> [] \<longrightarrow> MailNickname p = Some (mail_nickname cfg))"
  by (auto simp: userResourceCreate_def createMailNickName_eq Let_def userProperties_def
      userResourceRead_def split: response.splits option.splits)

theorem userResourceCreate_mail_nickname_witness:
  "(\<exists>p rest. calls (userResourceCreate (servingClient aliceUser) aliceConfig []) = Create p # rest
      \<and> MailNickname p = Some ''alice'')
   \<and> (\<exists>p rest. calls (userResourceCreate (servingClient aliceUser)
                        (aliceConfig\<lparr>mail_nickname := ''al''\<rparr>) []) = Create p # rest
      \<and> MailNickname p = Some ''al'')"
  using userResourceCreate_mail_nickname [of "servingClient aliceUser" aliceConfig "[]"]
        userResourceCreate_mail_nickname
          [of "servingClient aliceUser" "aliceConfig\<lparr>mail_nickname := ''al''\<rparr>" "[]"]
  by (auto simp: aliceConfig_def)

subsection \<open>Auxiliary facts on the collections\<close>

lemma hasID_Some: "hasID idOf (Some i) v \<longleftrightarrow> idOf v = Some i"
  by (auto simp: hasID_def)

lemma findEntry_Some: "findEntry idOf i vs = Some v \<Longrightarrow> v \<in> set vs \<and> idOf v = Some i"
  by (induction vs) (auto simp: hasID_def split: if_splits)

lemma findEntry_None_iff: "findEntry idOf i vs = None \<longleftrightarrow> (\<forall>v \<in> set vs. idOf v \<noteq> Some i)"
  by (induction vs) (auto simp: hasID_def)

lemma replaceEntry_mem:
  "idOf e = Some i \<Longrightarrow> \<exists>v \<in> set vs. idOf v = Some i \<Longrightarrow> e \<in> set (replaceEntry idOf e vs)"
  by (induction vs) (auto simp: hasID_def)

lemma filter_replaceEntry:
  "idOf e = Some i \<Longrightarrow>
   filter (\<lambda>v. \<not> hasID idOf (Some i) v) (replaceEntry idOf e vs)
     = filter (\<lambda>v. \<not> hasID idOf (Some i) v) vs"
  by (induction vs) (auto simp: hasID_def)

lemma replaceEntry_first:
  "idOf e = Some i \<Longrightarrow> \<exists>v \<in> set vs. idOf v = Some i \<Longrightarrow>
   replaceEntry idOf e vs
     = takeWhile (\<lambda>v. idOf v \<noteq> Some i) vs @ e # tl (dropWhile (\<lambda>v. idOf v \<noteq> Some i) vs)"
  by (induction vs) (auto simp: hasID_def)

lemma length_filter_eq_iff: "length (filter P xs) = length xs \<longleftrightarrow> (\<forall>x \<in> set xs. P x)"
proof
  assume eq: "length (filter P xs) = length xs"
  show "\<forall>x \<in> set xs. P x"
  proof (rule ballI, rule ccontr)
    fix x assume "x \<in> set xs" and "\<not> P x"
    then have "length (filter P xs) < length xs" by (rule length_filter_less)
    with eq show False by simp
  qed
next
  assume "\<forall>x \<in> set xs. P x"
  then have "filter P xs = xs" by simp
  then show "length (filter P xs) = length xs" by simp
qed

lemma removeEntry_found:
  "idOf e = Some i \<Longrightarrow> \<exists>v \<in> set vs. idOf v = Some i \<Longrightarrow>
   removeEntry idOf e vs = Inr (filter (\<lambda>v. idOf v \<noteq> Some i) vs)"
  by (auto simp: removeEntry_def Let_def length_filter_eq_iff hasID_Some)

lemma appendEntry_exists:
  "idOf e = Some i \<Longrightarrow> \<exists>v \<in> set vs. idOf v = Some i \<Longrightarrow>
   appendEntry idOf e vs = Inl AlreadyExistsError"
  by (auto simp: appendEntry_def list_ex_iff hasID_def)

text \<open>
  Disabling an entry that is in the collection and then removing it: the first
  collection holds the disabled entry, the second is the original one without the
  entries of that ID.
\<close>

lemma disable_then_remove:
  assumes e: "idOf e = Some i" and ex: "\<exists>v \<in> set vs. idOf v = Some i"
  shows "removeEntry idOf e (replaceEntry idOf e vs) = Inr (filter (\<lambda>v. idOf v \<noteq> Some i) vs)"
proof -
  from replaceEntry_mem [OF e ex] e
  have "\<exists>v \<in> set (replaceEntry idOf e vs). idOf v = Some i" by blast
  from removeEntry_found [of idOf e i, OF e this] filter_replaceEntry [of idOf e i vs, OF e]
  show ?thesis by (simp add: hasID_Some)
qed

lemma findEntry_exists:
  assumes "\<exists>v \<in> set vs. idOf v = Some i"
  obtains found where "findEntry idOf i vs = Some found" and "idOf found = Some i"
proof -
  from assms have "findEntry idOf i vs \<noteq> None" by (simp add: findEntry_None_iff)
  then obtain found where f: "findEntry idOf i vs = Some found" by blast
  with findEntry_Some [OF f] that show ?thesis by blast
qed

lemma copyCredentials_exists:
  "\<exists>c \<in> set cs. KeyId c = Some k \<Longrightarrow> copyCredentials k acc cs = None"
  by (induction cs arbitrary: acc) auto

lemma keepCredentials_eq:
  "keepCredentials k acc cs = acc @ filter (\<lambda>c. KeyId c \<noteq> None \<and> KeyId c \<noteq> Some k) cs"
  by (induction cs arbitrary: acc) auto

lemma collection_exists:
  "\<exists>v \<in> set (collection c). P v \<Longrightarrow> \<exists>vs. c = Some vs \<and> (\<exists>v \<in> set vs. P v)"
  by (cases c) (auto simp: collection_def)


subsection \<open>Sub-resource operations\<close>

lemma role_create_exists:
  assumes "GetOk (role_id cfg) = Some rid"
    and "onGet cl [] (role_application_object_id cfg) = Returned app"
    and "\<exists>r \<in> set (collection (AppRoles app)). roleID r = Some rid"
  shows "applicationAppRoleResourceCreateUpdate cl gen cfg True id0 =
     \<lparr>diags = ImportAsExistsDiag ''azuread_application_app_role''
                (SubResourceIDString (role_application_object_id cfg) rid),
      Id = id0, calls = [Get (role_application_object_id cfg)]\<rparr>"
proof -
  have "appendEntry roleID (appRoleOfConfig cfg rid) (collection (AppRoles app))
          = Inl AlreadyExistsError"
    using assms(3) by (intro appendEntry_exists [where i = rid]) (simp_all add: appRoleOfConfig_def)
  then show ?thesis using assms(1,2)
    by (simp add: applicationAppRoleResourceCreateUpdate_def appRoleChange_def AppendAppRole_def Let_def)
qed

lemma scope_create_exists:
  assumes "GetOk (scope_id cfg) = Some sid"
    and "onGet cl [] (scope_application_object_id cfg) = Returned app"
    and "Api app = Some api"
    and "\<exists>r \<in> set (collection (OAuth2PermissionScopes api)). scopeID r = Some sid"
  shows "applicationOAuth2PermissionScopeResourceCreateUpdate cl gen cfg True id0 =
     \<lparr>diags = ImportAsExistsDiag ''azuread_application_oauth2_permission_scope''
                (SubResourceIDString (scope_application_object_id cfg) sid),
      Id = id0, calls = [Get (scope_application_object_id cfg)]\<rparr>"
proof -
  have "appendEntry scopeID (scopeOfConfig cfg sid) (collection (OAuth2PermissionScopes api))
          = Inl AlreadyExistsError"
    using assms(4) by (intro appendEntry_exists [where i = sid]) (simp_all add: scopeOfConfig_def)
  then show ?thesis using assms(1,2,3)
    by (simp add: applicationOAuth2PermissionScopeResourceCreateUpdate_def scopeChange_def
        AppendOAuth2PermissionScope_def Let_def)
qed

lemma cert_create_exists:
  assumes "KeyId credential = Some k"
    and "onGet cl [] objectId = Returned app"
    and "\<exists>c \<in> set (collection (KeyCredentials app)). KeyId c = Some k"
  shows "applicationCertificateResourceCreate cl (Inr credential) objectId id0 =
     \<lparr>diags = ImportAsExistsDiag ''azuread_application_certificate''
                (CredentialIDString objectId ''certificate'' k),
      Id = id0, calls = [Get objectId]\<rparr>"
  using assms
  by (simp add: applicationCertificateResourceCreate_def Let_def copyCredentials_exists)

lemma role_update_missing:
  assumes "GetOk (role_id cfg) = Some rid"
    and "onGet cl [] (role_application_object_id cfg) = Returned app"
    and "\<forall>r \<in> set (collection (AppRoles app)). roleID r \<noteq> Some rid"
  shows "applicationAppRoleResourceCreateUpdate cl gen cfg False id0 =
     \<lparr>diags = ErrorDiagPathF ''role_id'' ''App Role with ID %q was not found for Application %q'',
      Id = id0, calls = [Get (role_application_object_id cfg)]\<rparr>"
proof -
  have "findEntry roleID rid (collection (AppRoles app)) = None"
    using assms(3) by (simp add: findEntry_None_iff)
  then show ?thesis using assms(1,2)
    by (simp add: applicationAppRoleResourceCreateUpdate_def appRoleChange_def AppRoleFindById_def
        Let_def)
qed

lemma scope_update_missing:
  assumes "GetOk (scope_id cfg) = Some sid"
    and "onGet cl [] (scope_application_object_id cfg) = Returned app"
    and "\<forall>api. Api app = Some api \<longrightarrow>
           (\<forall>r \<in> set (collection (OAuth2PermissionScopes api)). scopeID r \<noteq> Some sid)"
  shows "applicationOAuth2PermissionScopeResourceCreateUpdate cl gen cfg False id0 =
     \<lparr>diags = ErrorDiagPathF ''scope_id''
                ''OAuth2 Permission with ID %q was not found for Application %q'',
      Id = id0, calls = [Get (scope_application_object_id cfg)]\<rparr>"
proof -
  have "OAuth2PermissionFindById app sid = Inr None"
    using assms(3)
    by (auto simp: OAuth2PermissionFindById_def findEntry_None_iff split: option.splits)
  then show ?thesis using assms(1,2)
    by (simp add: applicationOAuth2PermissionScopeResourceCreateUpdate_def scopeChange_def Let_def)
qed

lemma role_delete:
  assumes "SubResourceID id0 = Some (oid, rid)"
    and "onGet cl [] oid = Returned app"
    and "\<exists>r \<in> set (collection (AppRoles app)). roleID r = Some rid"
    and "\<forall>h p. onUpdate cl h p = Returned ()"
  shows "\<exists>found. findEntry roleID rid (collection (AppRoles app)) = Some found \<and>
     applicationAppRoleResourceDelete cl id0 =
       \<lparr>diags = NilDiag, Id = id0,
        calls = [Get oid,
                 Update (emptyApplication\<lparr>appID := appID app,
                    AppRoles := Some (replaceEntry roleID (found\<lparr>roleIsEnabled := Some False\<rparr>)
                                        (collection (AppRoles app)))\<rparr>),
                 Update (emptyApplication\<lparr>appID := appID app,
                    AppRoles := Some (filter (\<lambda>v. roleID v \<noteq> Some rid)
                                        (collection (AppRoles app)))\<rparr>)]\<rparr>"
proof -
  from collection_exists [OF assms(3)]
  obtain vs where vs: "AppRoles app = Some vs" "\<exists>r \<in> set vs. roleID r = Some rid" by blast
  from vs(2) obtain found where f: "findEntry roleID rid vs = Some found"
    and fid: "roleID found = Some rid" by (rule findEntry_exists)
  let ?role = "found\<lparr>roleIsEnabled := Some False\<rparr>"
  have rid: "roleID ?role = Some rid" using fid by simp
  have rem: "removeEntry roleID ?role (replaceEntry roleID ?role vs)
               = Inr (filter (\<lambda>v. roleID v \<noteq> Some rid) vs)"
    using rid vs(2) by (rule disable_then_remove)
  show ?thesis
    using assms(1,2,4) vs(1) f rem
    by (simp add: applicationAppRoleResourceDelete_def appRoleDisableRemove_def AppRoleFindById_def
        UpdateAppRole_def RemoveAppRole_def collection_def Let_def emptyApplication_def)
qed

lemma scope_delete:
  assumes "SubResourceID id0 = Some (oid, sid)"
    and "onGet cl [] oid = Returned app"
    and "Api app = Some api"
    and "\<exists>r \<in> set (collection (OAuth2PermissionScopes api)). scopeID r = Some sid"
    and "\<forall>h p. onUpdate cl h p = Returned ()"
  shows "\<exists>found. findEntry scopeID sid (collection (OAuth2PermissionScopes api)) = Some found \<and>
     applicationOAuth2PermissionScopeResourceDelete cl id0 =
       \<lparr>diags = NilDiag, Id = id0,
        calls = [Get oid,
                 Update (emptyApplication\<lparr>appID := appID app,
                    Api := Some \<lparr>OAuth2PermissionScopes =
                      Some (replaceEntry scopeID (found\<lparr>scopeIsEnabled := Some False\<rparr>)
                              (collection (OAuth2PermissionScopes api)))\<rparr>\<rparr>),
                 Update (emptyApplication\<lparr>appID := appID app,
                    Api := Some \<lparr>OAuth2PermissionScopes =
                      Some (filter (\<lambda>v. scopeID v \<noteq> Some sid)
                              (collection (OAuth2PermissionScopes api)))\<rparr>\<rparr>)]\<rparr>"
proof -
  from collection_exists [OF assms(4)]
  obtain vs where vs: "OAuth2PermissionScopes api = Some vs" "\<exists>r \<in> set vs. scopeID r = Some sid"
    by blast
  from vs(2) obtain found where f: "findEntry scopeID sid vs = Some found"
    and fid: "scopeID found = Some sid" by (rule findEntry_exists)
  let ?scope = "found\<lparr>scopeIsEnabled := Some False\<rparr>"
  have sid: "scopeID ?scope = Some sid" using fid by simp
  have rem: "removeEntry scopeID ?scope (replaceEntry scopeID ?scope vs)
               = Inr (filter (\<lambda>v. scopeID v \<noteq> Some sid) vs)"
    using sid vs(2) by (rule disable_then_remove)
  show ?thesis
    using assms(1,2,3,5) vs(1) f rem
    by (simp add: applicationOAuth2PermissionScopeResourceDelete_def scopeDisableRemove_def
        OAuth2PermissionFindById_def UpdateOAuth2PermissionScope_def
        RemoveOAuth2PermissionScope_def scopeProperties_def collection_def Let_def
        emptyApplication_def)
qed

lemma cert_delete:
  assumes "CertificateID id0 = Some (oid, kid)"
    and "onGet cl [] oid = Returned app"
    and "\<forall>h p. onUpdate cl h p = Returned ()"
  shows "applicationCertificateResourceDelete cl id0 =
       \<lparr>diags = NilDiag, Id = id0,
        calls = [Get oid,
                 Update (emptyApplication\<lparr>appID := Some oid,
                    KeyCredentials := Some (filter (\<lambda>c. KeyId c \<noteq> None \<and> KeyId c \<noteq> Some kid)
                                        (collection (KeyCredentials app)))\<rparr>)]\<rparr>"
  using assms
  by (simp add: applicationCertificateResourceDelete_def keepCredentials_eq Let_def)


subsection \<open>Reading a parent object\<close>

text \<open>
  Claim C6. When the \<open>Get\<close> of a group, user or application read fails with status
  404, the read clears the resource ID of the local state and returns no
  diagnostics; when it fails with any other status, the read returns the error
  diagnostic of the retrieval and leaves the resource ID as it was.
\<close>

theorem parent_read_not_found:
  "(onGet gcl gh i = Failed s \<longrightarrow>
      (s = 404 \<longrightarrow> diags (groupResourceRead gcl gh i) = NilDiag
                  \<and> Id (groupResourceRead gcl gh i) = [])
    \<and> (s \<noteq> 404 \<longrightarrow> diags (groupResourceRead gcl gh i)
                     = ErrorDiagF ''Retrieving group with object ID: %q''
                  \<and> Id (groupResourceRead gcl gh i) = i))
 \<and> (onGet ucl uh i = Failed s \<longrightarrow>
      (s = 404 \<longrightarrow> diags (userResourceRead ucl uh i) = NilDiag
                  \<and> Id (userResourceRead ucl uh i) = [])
    \<and> (s \<noteq> 404 \<longrightarrow> diags (userResourceRead ucl uh i)
                     = ErrorDiagF ''Retrieving user with object ID: %q''
                  \<and> Id (userResourceRead ucl uh i) = i))
 \<and> (onGet acl ah i = Failed s \<longrightarrow>
      (s = 404 \<longrightarrow> diags (applicationResourceRead acl ah i) = NilDiag
                  \<and> Id (applicationResourceRead acl ah i) = [])
    \<and> (s \<noteq> 404 \<longrightarrow> diags (applicationResourceRead acl ah i)
                     = ErrorDiagPathF ''id'' ''Retrieving Application with object ID %q''
                  \<and> Id (applicationResourceRead acl ah i) = i))"
  by (simp add: groupResourceRead_def userResourceRead_def applicationResourceRead_def
      StatusNotFound_def Let_def)

theorem parent_read_not_found_witness:
  "onGet (failingGetClient exampleGroup 404) [] ''x-1'' = Failed 404
   \<and> diags (groupResourceRead (failingGetClient exampleGroup 404) [] ''x-1'') = NilDiag
   \<and> Id (groupResourceRead (failingGetClient exampleGroup 404) [] ''x-1'') = []
   \<and> diags (userResourceRead (failingGetClient aliceUser 404) [] ''x-1'') = NilDiag
   \<and> Id (userResourceRead (failingGetClient aliceUser 404) [] ''x-1'') = []
   \<and> diags (applicationResourceRead (failingGetClient exampleApp 404) [] ''x-1'') = NilDiag
   \<and> Id (applicationResourceRead (failingGetClient exampleApp 404) [] ''x-1'') = []
   \<and> onGet (failingGetClient exampleGroup 500) [] ''x-1'' = Failed 500
   \<and> diags (groupResourceRead (failingGetClient exampleGroup 500) [] ''x-1'')
        = ErrorDiagF ''Retrieving group with object ID: %q''
   \<and> Id (groupResourceRead (failingGetClient exampleGroup 500) [] ''x-1'') = ''x-1''
   \<and> diags (userResourceRead (failingGetClient aliceUser 500) [] ''x-1'')
        = ErrorDiagF ''Retrieving user with object ID: %q''
   \<and> Id (userResourceRead (failingGetClient aliceUser 500) [] ''x-1'') = ''x-1''
   \<and> diags (applicationResourceRead (failingGetClient exampleApp 500) [] ''x-1'')
        = ErrorDiagPathF ''id'' ''Retrieving Application with object ID %q''
   \<and> Id (applicationResourceRead (failingGetClient exampleApp 500) [] ''x-1'') = ''x-1''"
  using parent_read_not_found
          [where gcl = "failingGetClient exampleGroup 404" and gh = "[]" and i = "''x-1''"
             and s = 404 and ucl = "failingGetClient aliceUser 404" and uh = "[]"
             and acl = "failingGetClient exampleApp 404" and ah = "[]"]
        parent_read_not_found
          [where gcl = "failingGetClient exampleGroup 500" and gh = "[]" and i = "''x-1''"
             and s = 500 and ucl = "failingGetClient aliceUser 500" and uh = "[]"
             and acl = "failingGetClient exampleApp 500" and ah = "[]"]
  by (simp add: failingGetClient_def servingClient_def)


subsection \<open>Validation of role and scope values\<close>

lemma roleValues_eq:
  "roleValues vals rs = vals @ filter (\<lambda>v. v \<noteq> []) (map block_role_value rs)"
  by (induction rs arbitrary: vals) (auto simp: Let_def)

lemma scopeValues_eq:
  "scopeValues vals ss = vals @ filter (\<lambda>v. v \<noteq> []) (map block_scope_value ss)"
  by (induction ss arbitrary: vals) (auto simp: Let_def)

lemma isEncountered_iff: "isEncountered ens val \<longleftrightarrow> val \<in> set ens"
  by (induction ens) auto

lemma firstDuplicate_None:
  "firstDuplicate enc vals = None \<longleftrightarrow> distinct vals \<and> set enc \<inter> set vals = {}"
  by (induction vals arbitrary: enc) (auto simp: isEncountered_iff)

lemma validate_None_iff:
  "applicationValidateRolesScopes rs ss = None \<longleftrightarrow> distinct (combinedValues rs ss)"
  by (simp add: applicationValidateRolesScopes_def combinedValues_def roleValues_eq scopeValues_eq
      firstDuplicate_None Let_def)

lemma applicationCheckName_calls:
  "\<not> list_ex isCreate (snd (applicationCheckName cl n self))
   \<and> \<not> list_ex isUpdate (snd (applicationCheckName cl n self))"
  by (simp add: applicationCheckName_def isCreate_def isUpdate_def Let_def
      split: response.split option.split)

lemma create_invalid:
  assumes "applicationValidateRolesScopes (app_role cfg) (oauth2_permission_scope cfg) = Some dup"
  shows "diags (applicationResourceCreate cl cfg id0) \<noteq> NilDiag
   \<and> \<not> list_ex isCreate (calls (applicationResourceCreate cl cfg id0))
   \<and> Id (applicationResourceCreate cl cfg id0) = id0"
  using assms applicationCheckName_calls [of cl "app_display_name cfg" None]
  by (simp add: applicationResourceCreate_def Let_def)

lemma update_invalid:
  assumes "has_change_oauth2_permission_scope cfg"
    and "applicationValidateRolesScopes (app_role cfg) (oauth2_permission_scope cfg) = Some dup"
  shows "diags (applicationResourceUpdate cl cfg id0) \<noteq> NilDiag
   \<and> \<not> list_ex isUpdate (calls (applicationResourceUpdate cl cfg id0))
   \<and> Id (applicationResourceUpdate cl cfg id0) = id0"
  using assms applicationCheckName_calls [of cl "app_display_name cfg" "Some id0"]
  by (simp add: applicationResourceUpdate_def Let_def)

text \<open>
  What holds of the validation: \<open>applicationValidateRolesScopes\<close> fails exactly
  when the non-empty values of the roles and scopes together contain a
  duplicate. Creating an application with such a duplicate ends with an error
  diagnostic before any create call is issued, and the local state keeps its ID.
  Updating one does the same before any update call is issued, provided the
  \<open>oauth2_permission_scope\<close> block has changed.
\<close>

lemma roles_scopes_validated_before_write:
  "(applicationValidateRolesScopes rs ss \<noteq> None \<longleftrightarrow> \<not> distinct (combinedValues rs ss))
   \<and> (\<not> distinct (combinedValues (app_role cfg) (oauth2_permission_scope cfg)) \<longrightarrow>
         diags (applicationResourceCreate cl cfg id0) \<noteq> NilDiag
       \<and> \<not> list_ex isCreate (calls (applicationResourceCreate cl cfg id0))
       \<and> Id (applicationResourceCreate cl cfg id0) = id0)
   \<and> (has_change_oauth2_permission_scope cfg
        \<and> \<not> distinct (combinedValues (app_role cfg) (oauth2_permission_scope cfg)) \<longrightarrow>
         diags (applicationResourceUpdate cl cfg id0) \<noteq> NilDiag
       \<and> \<not> list_ex isUpdate (calls (applicationResourceUpdate cl cfg id0))
       \<and> Id (applicationResourceUpdate cl cfg id0) = id0)"
proof (intro conjI impI)
  show "applicationValidateRolesScopes rs ss \<noteq> None \<longleftrightarrow> \<not> distinct (combinedValues rs ss)"
    by (simp add: validate_None_iff)
next
  assume "\<not> distinct (combinedValues (app_role cfg) (oauth2_permission_scope cfg))"
  then obtain dup where
    "applicationValidateRolesScopes (app_role cfg) (oauth2_permission_scope cfg) = Some dup"
    using validate_None_iff [of "app_role cfg" "oauth2_permission_scope cfg"] by auto
  from create_invalid [OF this, of cl id0]
  show "diags (applicationResourceCreate cl cfg id0) \<noteq> NilDiag"
    and "\<not> list_ex isCreate (calls (applicationResourceCreate cl cfg id0))"
    and "Id (applicationResourceCreate cl cfg id0) = id0"
    by simp_all
next
  assume a: "has_change_oauth2_permission_scope cfg
        \<and> \<not> distinct (combinedValues (app_role cfg) (oauth2_permission_scope cfg))"
  then obtain dup where
    "applicationValidateRolesScopes (app_role cfg) (oauth2_permission_scope cfg) = Some dup"
    using validate_None_iff [of "app_role cfg" "oauth2_permission_scope cfg"] by auto
  from update_invalid [OF _ this, of cl id0] a
  show "diags (applicationResourceUpdate cl cfg id0) \<noteq> NilDiag"
    and "\<not> list_ex isUpdate (calls (applicationResourceUpdate cl cfg id0))"
    and "Id (applicationResourceUpdate cl cfg id0) = id0"
    by simp_all
qed

lemma roles_scopes_validated_before_write_example:
  "combinedValues (app_role dupRoleScopeConfig) (oauth2_permission_scope dupRoleScopeConfig)
     = [''read'', ''read'']
   \<and> applicationValidateRolesScopes [readerBlock] [readBlock] = Some ''read''
   \<and> has_change_oauth2_permission_scope dupRoleScopeConfig
   \<and> diags (applicationResourceCreate (servingClient exampleApp) dupRoleScopeConfig [])
        = ErrorDiagPathF ''app_role'' ''Checking for duplicate app role / oauth2_permissions values''
   \<and> calls (applicationResourceCreate (servingClient exampleApp) dupRoleScopeConfig []) = []
   \<and> diags (applicationResourceUpdate (servingClient exampleApp) dupRoleScopeConfig ''app-1'')
        = ErrorDiagPathF ''app_role'' ''Checking for duplicate app role / oauth2_permissions values''
   \<and> calls (applicationResourceUpdate (servingClient exampleApp) dupRoleScopeConfig ''app-1'') = []"
proof -
  have v: "combinedValues (app_role dupRoleScopeConfig) (oauth2_permission_scope dupRoleScopeConfig)
             = [''read'', ''read'']"
    by (simp add: combinedValues_def dupRoleScopeConfig_def readerBlock_def readBlock_def)
  have d: "applicationValidateRolesScopes [readerBlock] [readBlock] = Some ''read''"
    by (simp add: applicationValidateRolesScopes_def readerBlock_def readBlock_def Let_def)
  have h: "has_change_oauth2_permission_scope dupRoleScopeConfig"
    by (simp add: dupRoleScopeConfig_def)
  from roles_scopes_validated_before_write
         [of "[readerBlock]" "[readBlock]" dupRoleScopeConfig "servingClient exampleApp" "[]"] v
  have n: "diags (applicationResourceCreate (servingClient exampleApp) dupRoleScopeConfig []) \<noteq> NilDiag"
    by simp
  have c: "applicationResourceCreate (servingClient exampleApp) dupRoleScopeConfig []
             = \<lparr>diags = ErrorDiagPathF ''app_role''
                  ''Checking for duplicate app role / oauth2_permissions values'',
                Id = [], calls = []\<rparr>"
    using d by (simp add: applicationResourceCreate_def dupRoleScopeConfig_def Let_def)
  have u: "applicationResourceUpdate (servingClient exampleApp) dupRoleScopeConfig ''app-1''
             = \<lparr>diags = ErrorDiagPathF ''app_role''
                  ''Checking for duplicate app role / oauth2_permissions values'',
                Id = ''app-1'', calls = []\<rparr>"
    using d by (simp add: applicationResourceUpdate_def dupRoleScopeConfig_def Let_def)
  from n v d h c u show ?thesis by simp
qed

text \<open>
  Claim C7, at the input where the code departs from it. The update changes only
  the roles, and the two roles of \<open>dupRolesConfig\<close> share the value \<open>read\<close>:
  \<open>applicationValidateRolesScopes\<close> rejects them, yet
  \<open>applicationResourceUpdate\<close> does not run it, since the
  \<open>oauth2_permission_scope\<close> block is unchanged. The update call is issued, the
  roles are sent after it, and the update ends without diagnostics.
\<close>

theorem role_only_update_not_validated:
  "applicationValidateRolesScopes (app_role dupRolesConfig) (oauth2_permission_scope dupRolesConfig)
     = Some ''read''
   \<and> diags (applicationResourceUpdate (servingClient exampleApp) dupRolesConfig ''app-1'') = NilDiag
   \<and> map isUpdate (calls (applicationResourceUpdate (servingClient exampleApp) dupRolesConfig ''app-1''))
        = [True, False]"
  by (simp add: applicationValidateRolesScopes_def applicationResourceUpdate_def
      applicationUpdateCollections_def applicationUpdateProperties_def dupRolesConfig_def
      readerBlock_def viewerBlock_def servingClient_def isUpdate_def Let_def)


subsection \<open>Creating and updating a sub-resource entry\<close>

text \<open>
  Claim C3. Creating an app role, an OAuth2 permission scope or a certificate
  credential whose ID is explicitly supplied, when the fetched application
  already holds an entry with that ID, ends with the import-as-exists diagnostic
  of the resource. The only call issued is the \<open>Get\<close> of the application: no
  update and no second attempt follow, the ID of the local state is unchanged, and
  the outcome does not depend on the UUID generator.
\<close>

theorem sub_resource_create_already_exists:
  "(GetOk (role_id rcfg) = Some rid
      \<and> onGet cl [] (role_application_object_id rcfg) = Returned app
      \<and> (\<exists>r \<in> set (collection (AppRoles app)). roleID r = Some rid) \<longrightarrow>
    applicationAppRoleResourceCreateUpdate cl gen rcfg True lid =
      \<lparr>diags = ImportAsExistsDiag ''azuread_application_app_role''
                 (SubResourceIDString (role_application_object_id rcfg) rid),
       Id = lid, calls = [Get (role_application_object_id rcfg)]\<rparr>)
 \<and> (GetOk (scope_id scfg) = Some sid
      \<and> onGet cl [] (scope_application_object_id scfg) = Returned app
      \<and> Api app = Some api
      \<and> (\<exists>r \<in> set (collection (OAuth2PermissionScopes api)). scopeID r = Some sid) \<longrightarrow>
    applicationOAuth2PermissionScopeResourceCreateUpdate cl gen scfg True lid =
      \<lparr>diags = ImportAsExistsDiag ''azuread_application_oauth2_permission_scope''
                 (SubResourceIDString (scope_application_object_id scfg) sid),
       Id = lid, calls = [Get (scope_application_object_id scfg)]\<rparr>)
 \<and> (KeyId credential = Some kid
      \<and> onGet cl [] objectId = Returned app
      \<and> (\<exists>c \<in> set (collection (KeyCredentials app)). KeyId c = Some kid) \<longrightarrow>
    applicationCertificateResourceCreate cl (Inr credential) objectId lid =
      \<lparr>diags = ImportAsExistsDiag ''azuread_application_certificate''
                 (CredentialIDString objectId ''certificate'' kid),
       Id = lid, calls = [Get objectId]\<rparr>)"
  using role_create_exists [of rcfg rid cl app gen lid]
        scope_create_exists [of scfg sid cl app api gen lid]
        cert_create_exists [of credential kid cl objectId app lid]
  by blast

theorem sub_resource_create_already_exists_witness:
  "applicationAppRoleResourceCreateUpdate (servingClient exampleApp) None roleConfig True [] =
      \<lparr>diags = ImportAsExistsDiag ''azuread_application_app_role'' ''app-1/role-1'',
       Id = [], calls = [Get ''app-1'']\<rparr>
   \<and> applicationOAuth2PermissionScopeResourceCreateUpdate (servingClient exampleApp) None
        scopeConfig True [] =
      \<lparr>diags = ImportAsExistsDiag ''azuread_application_oauth2_permission_scope''
                 ''app-1/scope-1'',
       Id = [], calls = [Get ''app-1'']\<rparr>
   \<and> applicationCertificateResourceCreate (servingClient exampleApp) (Inr signingKey) ''app-1'' [] =
      \<lparr>diags = ImportAsExistsDiag ''azuread_application_certificate''
                 ''app-1/certificate/key-1'',
       Id = [], calls = [Get ''app-1'']\<rparr>"
  using sub_resource_create_already_exists
          [where rcfg = roleConfig and rid = "''role-1''" and cl = "servingClient exampleApp"
             and app = exampleApp and gen = None and lid = "[]" and scfg = scopeConfig
             and sid = "''scope-1''" and api = "\<lparr>OAuth2PermissionScopes = Some [readScope]\<rparr>"
             and credential = signingKey and kid = "''key-1''" and objectId = "''app-1''"]
  by (simp add: servingClient_def exampleApp_def roleConfig_def scopeConfig_def adminRole_def
      readScope_def signingKey_def GetOk_def collection_def SubResourceIDString_def
      CredentialIDString_def)

text \<open>
  Claim C5, as the code has it. On the update path (\<open>d.IsNewResource()\<close> false) of an
  app role or an OAuth2 permission scope, when the fetched application holds no
  entry with the ID, the operation ends with the error diagnostic that the entry
  was not found, issues no update and leaves the ID of the local state as it was.
\<close>

theorem sub_resource_update_missing_entry:
  "(GetOk (role_id rcfg) = Some rid
      \<and> onGet cl [] (role_application_object_id rcfg) = Returned app
      \<and> (\<forall>r \<in> set (collection (AppRoles app)). roleID r \<noteq> Some rid) \<longrightarrow>
    applicationAppRoleResourceCreateUpdate cl gen rcfg False lid =
      \<lparr>diags = ErrorDiagPathF ''role_id''
                 ''App Role with ID %q was not found for Application %q'',
       Id = lid, calls = [Get (role_application_object_id rcfg)]\<rparr>)
 \<and> (GetOk (scope_id scfg) = Some sid
      \<and> onGet cl [] (scope_application_object_id scfg) = Returned app
      \<and> (\<forall>api. Api app = Some api \<longrightarrow>
            (\<forall>r \<in> set (collection (OAuth2PermissionScopes api)). scopeID r \<noteq> Some sid)) \<longrightarrow>
    applicationOAuth2PermissionScopeResourceCreateUpdate cl gen scfg False lid =
      \<lparr>diags = ErrorDiagPathF ''scope_id''
                 ''OAuth2 Permission with ID %q was not found for Application %q'',
       Id = lid, calls = [Get (scope_application_object_id scfg)]\<rparr>)"
  using role_update_missing [of rcfg rid cl app gen lid]
        scope_update_missing [of scfg sid cl app gen lid]
  by blast

theorem sub_resource_update_missing_entry_witness:
  "applicationAppRoleResourceCreateUpdate (servingClient exampleApp) None
       (roleConfig\<lparr>role_id := ''role-9''\<rparr>) False ''app-1/role-9'' =
      \<lparr>diags = ErrorDiagPathF ''role_id''
                 ''App Role with ID %q was not found for Application %q'',
       Id = ''app-1/role-9'', calls = [Get ''app-1'']\<rparr>
   \<and> applicationOAuth2PermissionScopeResourceCreateUpdate (servingClient exampleApp) None
       (scopeConfig\<lparr>scope_id := ''scope-9''\<rparr>) False ''app-1/scope-9'' =
      \<lparr>diags = ErrorDiagPathF ''scope_id''
                 ''OAuth2 Permission with ID %q was not found for Application %q'',
       Id = ''app-1/scope-9'', calls = [Get ''app-1'']\<rparr>"
  using sub_resource_update_missing_entry
          [where rcfg = "roleConfig\<lparr>role_id := ''role-9''\<rparr>" and rid = "''role-9''"
             and cl = "servingClient exampleApp" and app = exampleApp and gen = None
             and lid = "''app-1/role-9''"
             and scfg = "scopeConfig\<lparr>scope_id := ''scope-9''\<rparr>" and sid = "''scope-9''"]
        sub_resource_update_missing_entry
          [where scfg = "scopeConfig\<lparr>scope_id := ''scope-9''\<rparr>" and sid = "''scope-9''"
             and cl = "servingClient exampleApp" and app = exampleApp and gen = None
             and lid = "''app-1/scope-9''"
             and rcfg = "roleConfig\<lparr>role_id := ''role-9''\<rparr>" and rid = "''role-9''"]
  by (simp add: servingClient_def exampleApp_def roleConfig_def scopeConfig_def adminRole_def
      readScope_def GetOk_def collection_def)

text \<open>
  The claim as stated fails: updating the role \<open>role-9\<close>, which the application
  does not hold, ends with an error diagnostic, and the record \<open>app-1/role-9\<close>
  stays in the local state.
\<close>

theorem role_update_missing_entry_fails:
  "findEntry roleID ''role-9'' (collection (AppRoles exampleApp)) = None
   \<and> diags (applicationAppRoleResourceCreateUpdate (servingClient exampleApp) None
        (roleConfig\<lparr>role_id := ''role-9''\<rparr>) False ''app-1/role-9'')
      = ErrorDiagPathF ''role_id'' ''App Role with ID %q was not found for Application %q''
   \<and> Id (applicationAppRoleResourceCreateUpdate (servingClient exampleApp) None
        (roleConfig\<lparr>role_id := ''role-9''\<rparr>) False ''app-1/role-9'')
      = ''app-1/role-9''"
  by (simp add: applicationAppRoleResourceCreateUpdate_def appRoleChange_def AppRoleFindById_def
      servingClient_def exampleApp_def roleConfig_def adminRole_def GetOk_def collection_def
      hasID_def Let_def)


subsection \<open>Deleting a sub-resource entry\<close>

text \<open>
  Claim C2, as the code has it. When the application is fetched and its updates
  succeed, deleting an app role or an OAuth2 permission scope that the
  application holds issues exactly two updates after the \<open>Get\<close>. The first
  writes the application's collection with the entry found for the ID replaced,
  in place, by its copy with the enabled flag false, every other entry as it
  was; the second writes the original collection without the entries of that ID.
  Deleting a certificate credential issues exactly one update, which writes the
  credentials without that key ID; a key credential has no enabled flag and is
  not disabled first.
\<close>

theorem sub_resource_delete_write_backs:
  assumes upd: "\<forall>h p. onUpdate cl h p = Returned ()"
    and get: "onGet cl [] oid = Returned app"
  shows
  "(SubResourceID rlid = Some (oid, rid)
      \<and> (\<exists>r \<in> set (collection (AppRoles app)). roleID r = Some rid) \<longrightarrow>
      (\<exists>found rs1 rs2.
          applicationAppRoleResourceDelete cl rlid =
            \<lparr>diags = NilDiag, Id = rlid,
             calls = [Get oid,
                      Update (emptyApplication\<lparr>appID := appID app, AppRoles := Some rs1\<rparr>),
                      Update (emptyApplication\<lparr>appID := appID app, AppRoles := Some rs2\<rparr>)]\<rparr>
        \<and> findEntry roleID rid (collection (AppRoles app)) = Some found
        \<and> rs1 = replaceEntry roleID (found\<lparr>roleIsEnabled := Some False\<rparr>)
                  (collection (AppRoles app))
        \<and> rs1 = takeWhile (\<lambda>v. roleID v \<noteq> Some rid) (collection (AppRoles app))
                  @ found\<lparr>roleIsEnabled := Some False\<rparr>
                  # tl (dropWhile (\<lambda>v. roleID v \<noteq> Some rid) (collection (AppRoles app)))
        \<and> found\<lparr>roleIsEnabled := Some False\<rparr> \<in> set rs1
        \<and> rs2 = filter (\<lambda>v. roleID v \<noteq> Some rid) (collection (AppRoles app))
        \<and> (\<forall>v \<in> set rs2. roleID v \<noteq> Some rid)))
 \<and> (SubResourceID slid = Some (oid, sid) \<and> Api app = Some api
      \<and> (\<exists>r \<in> set (collection (OAuth2PermissionScopes api)). scopeID r = Some sid) \<longrightarrow>
      (\<exists>found ss1 ss2.
          applicationOAuth2PermissionScopeResourceDelete cl slid =
            \<lparr>diags = NilDiag, Id = slid,
             calls = [Get oid,
                      Update (emptyApplication\<lparr>appID := appID app,
                                Api := Some \<lparr>OAuth2PermissionScopes = Some ss1\<rparr>\<rparr>),
                      Update (emptyApplication\<lparr>appID := appID app,
                                Api := Some \<lparr>OAuth2PermissionScopes = Some ss2\<rparr>\<rparr>)]\<rparr>
        \<and> findEntry scopeID sid (collection (OAuth2PermissionScopes api)) = Some found
        \<and> ss1 = replaceEntry scopeID (found\<lparr>scopeIsEnabled := Some False\<rparr>)
                  (collection (OAuth2PermissionScopes api))
        \<and> ss1 = takeWhile (\<lambda>v. scopeID v \<noteq> Some sid) (collection (OAuth2PermissionScopes api))
                  @ found\<lparr>scopeIsEnabled := Some False\<rparr>
                  # tl (dropWhile (\<lambda>v. scopeID v \<noteq> Some sid)
                         (collection (OAuth2PermissionScopes api)))
        \<and> found\<lparr>scopeIsEnabled := Some False\<rparr> \<in> set ss1
        \<and> ss2 = filter (\<lambda>v. scopeID v \<noteq> Some sid) (collection (OAuth2PermissionScopes api))
        \<and> (\<forall>v \<in> set ss2. scopeID v \<noteq> Some sid)))
 \<and> (CertificateID clid = Some (oid, kid) \<longrightarrow>
      (\<exists>cs.
          applicationCertificateResourceDelete cl clid =
            \<lparr>diags = NilDiag, Id = clid,
             calls = [Get oid,
                      Update (emptyApplication\<lparr>appID := Some oid, KeyCredentials := Some cs\<rparr>)]\<rparr>
        \<and> cs = filter (\<lambda>c. KeyId c \<noteq> None \<and> KeyId c \<noteq> Some kid)
                   (collection (KeyCredentials app))
        \<and> (\<forall>c \<in> set cs. KeyId c \<noteq> Some kid)))"
proof (intro conjI impI)
  assume a: "SubResourceID rlid = Some (oid, rid)
      \<and> (\<exists>r \<in> set (collection (AppRoles app)). roleID r = Some rid)"
  then have ex: "\<exists>r \<in> set (collection (AppRoles app)). roleID r = Some rid" by simp
  let ?vs = "collection (AppRoles app)"
  from a role_delete [of rlid oid rid cl app, OF _ get _ upd]
  obtain found where f: "findEntry roleID rid ?vs = Some found"
    and r: "applicationAppRoleResourceDelete cl rlid =
       \<lparr>diags = NilDiag, Id = rlid,
        calls = [Get oid,
                 Update (emptyApplication\<lparr>appID := appID app,
                    AppRoles := Some (replaceEntry roleID (found\<lparr>roleIsEnabled := Some False\<rparr>) ?vs)\<rparr>),
                 Update (emptyApplication\<lparr>appID := appID app,
                    AppRoles := Some (filter (\<lambda>v. roleID v \<noteq> Some rid) ?vs)\<rparr>)]\<rparr>"
    by blast
  let ?e = "found\<lparr>roleIsEnabled := Some False\<rparr>"
  from findEntry_Some [OF f] have e: "roleID ?e = Some rid" by simp
  from replaceEntry_mem [OF e ex] have m: "?e \<in> set (replaceEntry roleID ?e ?vs)" .
  from replaceEntry_first [of roleID ?e rid ?vs, OF e ex]
  have c: "replaceEntry roleID ?e ?vs
             = takeWhile (\<lambda>v. roleID v \<noteq> Some rid) ?vs
               @ ?e # tl (dropWhile (\<lambda>v. roleID v \<noteq> Some rid) ?vs)" .
  have n: "\<forall>v \<in> set (filter (\<lambda>v. roleID v \<noteq> Some rid) ?vs). roleID v \<noteq> Some rid" by simp
  show "\<exists>found rs1 rs2.
          applicationAppRoleResourceDelete cl rlid =
            \<lparr>diags = NilDiag, Id = rlid,
             calls = [Get oid,
                      Update (emptyApplication\<lparr>appID := appID app, AppRoles := Some rs1\<rparr>),
                      Update (emptyApplication\<lparr>appID := appID app, AppRoles := Some rs2\<rparr>)]\<rparr>
        \<and> findEntry roleID rid (collection (AppRoles app)) = Some found
        \<and> rs1 = replaceEntry roleID (found\<lparr>roleIsEnabled := Some False\<rparr>)
                  (collection (AppRoles app))
        \<and> rs1 = takeWhile (\<lambda>v. roleID v \<noteq> Some rid) (collection (AppRoles app))
                  @ found\<lparr>roleIsEnabled := Some False\<rparr>
                  # tl (dropWhile (\<lambda>v. roleID v \<noteq> Some rid) (collection (AppRoles app)))
        \<and> found\<lparr>roleIsEnabled := Some False\<rparr> \<in> set rs1
        \<and> rs2 = filter (\<lambda>v. roleID v \<noteq> Some rid) (collection (AppRoles app))
        \<and> (\<forall>v \<in> set rs2. roleID v \<noteq> Some rid)"
    apply (rule exI [of _ found])
    apply (rule exI [of _ "replaceEntry roleID ?e ?vs"])
    apply (rule exI [of _ "filter (\<lambda>v. roleID v \<noteq> Some rid) ?vs"])
    using f r m c n apply (intro conjI)
          apply assumption+
      apply (rule refl)
     apply assumption+
    apply (rule refl)
    apply assumption
    done
next
  assume a: "SubResourceID slid = Some (oid, sid) \<and> Api app = Some api
      \<and> (\<exists>r \<in> set (collection (OAuth2PermissionScopes api)). scopeID r = Some sid)"
  then have ex: "\<exists>r \<in> set (collection (OAuth2PermissionScopes api)). scopeID r = Some sid"
    by simp
  let ?vs = "collection (OAuth2PermissionScopes api)"
  from a scope_delete [of slid oid sid cl app api, OF _ get _ _ upd]
  obtain found where f: "findEntry scopeID sid ?vs = Some found"
    and r: "applicationOAuth2PermissionScopeResourceDelete cl slid =
       \<lparr>diags = NilDiag, Id = slid,
        calls = [Get oid,
                 Update (emptyApplication\<lparr>appID := appID app,
                    Api := Some \<lparr>OAuth2PermissionScopes =
                      Some (replaceEntry scopeID (found\<lparr>scopeIsEnabled := Some False\<rparr>) ?vs)\<rparr>\<rparr>),
                 Update (emptyApplication\<lparr>appID := appID app,
                    Api := Some \<lparr>OAuth2PermissionScopes =
                      Some (filter (\<lambda>v. scopeID v \<noteq> Some sid) ?vs)\<rparr>\<rparr>)]\<rparr>"
    by blast
  let ?e = "found\<lparr>scopeIsEnabled := Some False\<rparr>"
  from findEntry_Some [OF f] have e: "scopeID ?e = Some sid" by simp
  from replaceEntry_mem [OF e ex] have m: "?e \<in> set (replaceEntry scopeID ?e ?vs)" .
  from replaceEntry_first [of scopeID ?e sid ?vs, OF e ex]
  have c: "replaceEntry scopeID ?e ?vs
             = takeWhile (\<lambda>v. scopeID v \<noteq> Some sid) ?vs
               @ ?e # tl (dropWhile (\<lambda>v. scopeID v \<noteq> Some sid) ?vs)" .
  have n: "\<forall>v \<in> set (filter (\<lambda>v. scopeID v \<noteq> Some sid) ?vs). scopeID v \<noteq> Some sid" by simp
  show "\<exists>found ss1 ss2.
          applicationOAuth2PermissionScopeResourceDelete cl slid =
            \<lparr>diags = NilDiag, Id = slid,
             calls = [Get oid,
                      Update (emptyApplication\<lparr>appID := appID app,
                                Api := Some \<lparr>OAuth2PermissionScopes = Some ss1\<rparr>\<rparr>),
                      Update (emptyApplication\<lparr>appID := appID app,
                                Api := Some \<lparr>OAuth2PermissionScopes = Some ss2\<rparr>\<rparr>)]\<rparr>
        \<and> findEntry scopeID sid (collection (OAuth2PermissionScopes api)) = Some found
        \<and> ss1 = replaceEntry scopeID (found\<lparr>scopeIsEnabled := Some False\<rparr>)
                  (collection (OAuth2PermissionScopes api))
        \<and> ss1 = takeWhile (\<lambda>v. scopeID v \<noteq> Some sid) (collection (OAuth2PermissionScopes api))
                  @ found\<lparr>scopeIsEnabled := Some False\<rparr>
                  # tl (dropWhile (\<lambda>v. scopeID v \<noteq> Some sid)
                         (collection (OAuth2PermissionScopes api)))
        \<and> found\<lparr>scopeIsEnabled := Some False\<rparr> \<in> set ss1
        \<and> ss2 = filter (\<lambda>v. scopeID v \<noteq> Some sid) (collection (OAuth2PermissionScopes api))
        \<and> (\<forall>v \<in> set ss2. scopeID v \<noteq> Some sid)"
    apply (rule exI [of _ found])
    apply (rule exI [of _ "replaceEntry scopeID ?e ?vs"])
    apply (rule exI [of _ "filter (\<lambda>v. scopeID v \<noteq> Some sid) ?vs"])
    using f r m c n apply (intro conjI)
          apply assumption+
      apply (rule refl)
     apply assumption+
    apply (rule refl)
    apply assumption
    done
next
  assume a: "CertificateID clid = Some (oid, kid)"
  from cert_delete [OF a get upd]
  show "\<exists>cs.
          applicationCertificateResourceDelete cl clid =
            \<lparr>diags = NilDiag, Id = clid,
             calls = [Get oid,
                      Update (emptyApplication\<lparr>appID := Some oid, KeyCredentials := Some cs\<rparr>)]\<rparr>
        \<and> cs = filter (\<lambda>c. KeyId c \<noteq> None \<and> KeyId c \<noteq> Some kid)
                   (collection (KeyCredentials app))
        \<and> (\<forall>c \<in> set cs. KeyId c \<noteq> Some kid)"
    by simp
qed

lemma SubResourceID_example:
  "SubResourceID ''app-1/role-1'' = Some (''app-1'', ''role-1'')"
  "SubResourceID ''app-1/scope-1'' = Some (''app-1'', ''scope-1'')"
  "CertificateID ''app-1/certificate/key-1'' = Some (''app-1'', ''key-1'')"
  by (simp_all add: SubResourceID_def CertificateID_def)

theorem sub_resource_delete_write_backs_witness:
  "applicationAppRoleResourceDelete (servingClient exampleApp) ''app-1/role-1'' =
     \<lparr>diags = NilDiag, Id = ''app-1/role-1'',
      calls = [Get ''app-1'',
               Update (emptyApplication\<lparr>appID := Some ''app-1'',
                         AppRoles := Some [adminRole\<lparr>roleIsEnabled := Some False\<rparr>]\<rparr>),
               Update (emptyApplication\<lparr>appID := Some ''app-1'', AppRoles := Some []\<rparr>)]\<rparr>
   \<and> applicationOAuth2PermissionScopeResourceDelete (servingClient exampleApp) ''app-1/scope-1'' =
     \<lparr>diags = NilDiag, Id = ''app-1/scope-1'',
      calls = [Get ''app-1'',
               Update (emptyApplication\<lparr>appID := Some ''app-1'',
                         Api := Some \<lparr>OAuth2PermissionScopes =
                                  Some [readScope\<lparr>scopeIsEnabled := Some False\<rparr>]\<rparr>\<rparr>),
               Update (emptyApplication\<lparr>appID := Some ''app-1'',
                         Api := Some \<lparr>OAuth2PermissionScopes = Some []\<rparr>\<rparr>)]\<rparr>
   \<and> applicationCertificateResourceDelete (servingClient exampleApp) ''app-1/certificate/key-1'' =
     \<lparr>diags = NilDiag, Id = ''app-1/certificate/key-1'',
      calls = [Get ''app-1'',
               Update (emptyApplication\<lparr>appID := Some ''app-1'', KeyCredentials := Some []\<rparr>)]\<rparr>"
proof -
  have upd: "\<forall>h p. onUpdate (servingClient exampleApp) h p = Returned ()"
    by (simp add: servingClient_def)
  have get: "onGet (servingClient exampleApp) [] ''app-1'' = Returned exampleApp"
    by (simp add: servingClient_def)
  note inst = sub_resource_delete_write_backs
         [OF upd get, where rlid = "''app-1/role-1''" and rid = "''role-1''"
            and slid = "''app-1/scope-1''" and sid = "''scope-1''"
            and api = "\<lparr>OAuth2PermissionScopes = Some [readScope]\<rparr>"
            and clid = "''app-1/certificate/key-1''" and kid = "''key-1''"]
  have role: "applicationAppRoleResourceDelete (servingClient exampleApp) ''app-1/role-1'' =
     \<lparr>diags = NilDiag, Id = ''app-1/role-1'',
      calls = [Get ''app-1'',
               Update (emptyApplication\<lparr>appID := Some ''app-1'',
                         AppRoles := Some [adminRole\<lparr>roleIsEnabled := Some False\<rparr>]\<rparr>),
               Update (emptyApplication\<lparr>appID := Some ''app-1'', AppRoles := Some []\<rparr>)]\<rparr>"
    by (simp add: applicationAppRoleResourceDelete_def appRoleDisableRemove_def
        AppRoleFindById_def UpdateAppRole_def RemoveAppRole_def removeEntry_def hasID_def
        collection_def SubResourceID_example servingClient_def exampleApp_def adminRole_def
        emptyApplication_def Let_def)
  have scope: "applicationOAuth2PermissionScopeResourceDelete (servingClient exampleApp)
       ''app-1/scope-1'' =
     \<lparr>diags = NilDiag, Id = ''app-1/scope-1'',
      calls = [Get ''app-1'',
               Update (emptyApplication\<lparr>appID := Some ''app-1'',
                         Api := Some \<lparr>OAuth2PermissionScopes =
                                  Some [readScope\<lparr>scopeIsEnabled := Some False\<rparr>]\<rparr>\<rparr>),
               Update (emptyApplication\<lparr>appID := Some ''app-1'',
                         Api := Some \<lparr>OAuth2PermissionScopes = Some []\<rparr>\<rparr>)]\<rparr>"
    by (simp add: applicationOAuth2PermissionScopeResourceDelete_def scopeDisableRemove_def
        OAuth2PermissionFindById_def UpdateOAuth2PermissionScope_def
        RemoveOAuth2PermissionScope_def removeEntry_def hasID_def scopeProperties_def
        collection_def SubResourceID_example servingClient_def exampleApp_def readScope_def
        emptyApplication_def Let_def)
  from inst have cert: "applicationCertificateResourceDelete (servingClient exampleApp)
       ''app-1/certificate/key-1'' =
     \<lparr>diags = NilDiag, Id = ''app-1/certificate/key-1'',
      calls = [Get ''app-1'',
               Update (emptyApplication\<lparr>appID := Some ''app-1'', KeyCredentials := Some []\<rparr>)]\<rparr>"
    by (simp add: SubResourceID_example exampleApp_def signingKey_def collection_def)
  from role scope cert show ?thesis by simp
qed

text \<open>
  The claim as stated fails for a key credential: the application holds the
  credential \<open>key-1\<close>, and its delete succeeds with a single update.
\<close>

theorem certificate_delete_single_write_back:
  "findCredential ''key-1'' (collection (KeyCredentials exampleApp)) = Some signingKey
   \<and> diags (applicationCertificateResourceDelete (servingClient exampleApp)
        ''app-1/certificate/key-1'') = NilDiag
   \<and> length (filter isUpdate (calls (applicationCertificateResourceDelete
        (servingClient exampleApp) ''app-1/certificate/key-1''))) = 1"
  by (simp add: applicationCertificateResourceDelete_def SubResourceID_example servingClient_def
      exampleApp_def signingKey_def collection_def isUpdate_def Let_def)


subsection \<open>Set-difference reconciliation of group members and owners\<close>

lemma Difference_set: "set (Difference a b) = set a - set b"
  by (auto simp: Difference_def)

lemma Difference_distinct: "distinct (Difference a b)"
  by (simp add: Difference_def)

lemma foldl_AppendMember: "foldl AppendMember g ms = g\<lparr>Members := Members g @ ms\<rparr>"
  by (induction ms arbitrary: g) (auto simp: AppendMember_def)

lemma foldl_AppendOwner: "foldl AppendOwner g ms = g\<lparr>Owners := Owners g @ ms\<rparr>"
  by (induction ms arbitrary: g) (auto simp: AppendOwner_def)

lemma members_block:
  assumes "onListMembers cl h i = Returned existing"
    and "\<forall>h' xs. onRemoveMembers cl h' i xs = Returned ()"
    and "\<forall>h' g'. onAddMembers cl h' g' = Returned ()"
  shows "groupUpdateMembers cl h i g desired =
     (NilDiag,
      g\<lparr>Members := Members g @ Difference desired existing\<rparr>,
      h @ [ListMembers i]
        @ (if Difference existing desired = [] then []
           else [RemoveMembers i (Difference existing desired)])
        @ (if Difference desired existing = [] then []
           else [AddMembers (g\<lparr>Members := Members g @ Difference desired existing\<rparr>)]))"
  using assms by (simp add: groupUpdateMembers_def Let_def foldl_AppendMember)

lemma owners_block:
  assumes "onListOwners cl h i = Returned existing"
    and "\<forall>h' xs. onRemoveOwners cl h' i xs = Returned ()"
    and "\<forall>h' g'. onAddOwners cl h' g' = Returned ()"
  shows "groupUpdateOwners cl h i g desired =
     (NilDiag,
      g\<lparr>Owners := Owners g @ Difference desired existing\<rparr>,
      h @ [ListOwners i]
        @ (if Difference desired existing = [] then []
           else [AddOwners (g\<lparr>Owners := Owners g @ Difference desired existing\<rparr>)])
        @ (if Difference existing desired = [] then []
           else [RemoveOwners i (Difference existing desired)]))"
  using assms by (simp add: groupUpdateOwners_def Let_def foldl_AppendOwner)

lemma groupCheckName_passes:
  assumes "\<forall>h n e. onCheckName cl h n e = Returned None"
  shows "groupCheckName cl h n e = (NilDiag, h @ [GroupCheckNameAvailability n e])"
  using assms by (simp add: groupCheckName_def Let_def)

lemma groupUpdateProperties_empty:
  "Members (groupUpdateProperties cfg i) = []" "Owners (groupUpdateProperties cfg i) = []"
  by (simp_all add: groupUpdateProperties_def)

text \<open>
  Claim C1. Let the remote calls of a group update succeed, with \<open>existingM\<close> the
  members and \<open>existingO\<close> the owners the remote lists. Then
  \<open>groupResourceUpdate\<close> issues, in this order: the name check when it applies, the
  update of the group, and, when the members are configured and have changed,
  the listing of the members, one removal call carrying
  \<open>Difference existingM desired\<close> (none when it is empty) and one add call whose
  group carries as members exactly \<open>Difference desired existingM\<close> (none when it
  is empty); when the owners are configured and have changed, the listing of the
  owners, the add call with exactly \<open>Difference desired existingO\<close> as owners and
  the removal call with \<open>Difference existingO desired\<close>; then it reads the group
  back. For every current and desired list, the additions are as a set the
  desired entries minus the current ones, the removals the current entries minus
  the desired ones; the two are disjoint, neither lists an entry twice whatever
  duplicates the inputs hold, and the current set with the additions joined and
  the removals taken away is the desired set.
\<close>

theorem group_set_diff_reconciliation:
  fixes cl :: "Group client" and cfg :: group_config and i :: string
    and existingM existingO desired existing :: "string list"
  defines "pre \<equiv> (if has_change_display_name cfg \<and> group_prevent_duplicate_names cfg
                    then [GroupCheckNameAvailability (group_display_name cfg) (Some i)] else [])"
    and "grp \<equiv> groupUpdateProperties cfg i"
    and "desiredM \<equiv> (if has_change_members cfg then group_members cfg else None)"
    and "desiredO \<equiv> (if has_change_owners cfg then group_owners cfg else None)"
  assumes chk: "\<forall>h n e. onCheckName cl h n e = Returned None"
    and upd: "\<forall>h p. onUpdate cl h p = Returned ()"
    and lm: "\<forall>h. onListMembers cl h i = Returned existingM"
    and lo: "\<forall>h. onListOwners cl h i = Returned existingO"
    and rm: "\<forall>h xs. onRemoveMembers cl h i xs = Returned ()"
    and am: "\<forall>h g. onAddMembers cl h g = Returned ()"
    and ro: "\<forall>h xs. onRemoveOwners cl h i xs = Returned ()"
    and ao: "\<forall>h g. onAddOwners cl h g = Returned ()"
  shows "groupResourceUpdate cl cfg i =
     groupResourceRead cl
       (pre @ [Update grp]
        @ (case desiredM of
             None \<Rightarrow> []
           | Some dM \<Rightarrow>
               [ListMembers i]
               @ (if Difference existingM dM = [] then []
                  else [RemoveMembers i (Difference existingM dM)])
               @ (if Difference dM existingM = [] then []
                  else [AddMembers (grp\<lparr>Members := Difference dM existingM\<rparr>)]))
        @ (case desiredO of
             None \<Rightarrow> []
           | Some dO \<Rightarrow>
               [ListOwners i]
               @ (if Difference dO existingO = [] then []
                  else [AddOwners
                          ((case desiredM of
                              None \<Rightarrow> grp
                            | Some dM \<Rightarrow> grp\<lparr>Members := Difference dM existingM\<rparr>)
                           \<lparr>Owners := Difference dO existingO\<rparr>)])
               @ (if Difference existingO dO = [] then []
                  else [RemoveOwners i (Difference existingO dO)]))) i
   \<and> set (Difference desired existing) = set desired - set existing
   \<and> set (Difference existing desired) = set existing - set desired
   \<and> set (Difference desired existing) \<inter> set (Difference existing desired) = {}
   \<and> (set existing \<union> set (Difference desired existing)) - set (Difference existing desired)
        = set desired
   \<and> distinct (Difference desired existing) \<and> distinct (Difference existing desired)"
proof (intro conjI)
  have mb: "\<And>h g d. groupUpdateMembers cl h i g d =
     (NilDiag, g\<lparr>Members := Members g @ Difference d existingM\<rparr>,
      h @ [ListMembers i]
        @ (if Difference existingM d = [] then [] else [RemoveMembers i (Difference existingM d)])
        @ (if Difference d existingM = [] then []
           else [AddMembers (g\<lparr>Members := Members g @ Difference d existingM\<rparr>)]))"
    using lm rm am by (intro members_block) simp_all
  have ob: "\<And>h g d. groupUpdateOwners cl h i g d =
     (NilDiag, g\<lparr>Owners := Owners g @ Difference d existingO\<rparr>,
      h @ [ListOwners i]
        @ (if Difference d existingO = [] then []
           else [AddOwners (g\<lparr>Owners := Owners g @ Difference d existingO\<rparr>)])
        @ (if Difference existingO d = [] then [] else [RemoveOwners i (Difference existingO d)]))"
    using lo ro ao by (intro owners_block) simp_all
  show "groupResourceUpdate cl cfg i =
     groupResourceRead cl
       (pre @ [Update grp]
        @ (case desiredM of
             None \<Rightarrow> []
           | Some dM \<Rightarrow>
               [ListMembers i]
               @ (if Difference existingM dM = [] then []
                  else [RemoveMembers i (Difference existingM dM)])
               @ (if Difference dM existingM = [] then []
                  else [AddMembers (grp\<lparr>Members := Difference dM existingM\<rparr>)]))
        @ (case desiredO of
             None \<Rightarrow> []
           | Some dO \<Rightarrow>
               [ListOwners i]
               @ (if Difference dO existingO = [] then []
                  else [AddOwners
                          ((case desiredM of
                              None \<Rightarrow> grp
                            | Some dM \<Rightarrow> grp\<lparr>Members := Difference dM existingM\<rparr>)
                           \<lparr>Owners := Difference dO existingO\<rparr>)])
               @ (if Difference existingO dO = [] then []
                  else [RemoveOwners i (Difference existingO dO)]))) i"
    unfolding pre_def grp_def desiredM_def desiredO_def
    using upd
    by (cases "group_members cfg"; cases "group_owners cfg")
       (simp_all add: groupResourceUpdate_def groupCheckName_passes [OF chk] mb ob Let_def
          groupUpdateProperties_empty)
qed (auto simp: Difference_set Difference_distinct)

theorem group_set_diff_reconciliation_witness:
  "Difference [''B'', ''C'', ''D'', ''D''] [''A'', ''B'', ''C''] = [''D'']
   \<and> Difference [''A'', ''B'', ''C''] [''B'', ''C'', ''D'', ''D''] = [''A'']
   \<and> groupResourceUpdate abcClient bcdConfig ''g-1'' =
       \<lparr>diags = NilDiag, Id = ''g-1'',
        calls = [Update (groupUpdateProperties bcdConfig ''g-1''),
                 ListMembers ''g-1'',
                 RemoveMembers ''g-1'' [''A''],
                 AddMembers ((groupUpdateProperties bcdConfig ''g-1'')\<lparr>Members := [''D'']\<rparr>),
                 ListOwners ''g-1'',
                 AddOwners ((groupUpdateProperties bcdConfig ''g-1'')
                              \<lparr>Members := [''D''], Owners := [''D'']\<rparr>),
                 RemoveOwners ''g-1'' [''A''],
                 Get ''g-1'', ListOwners ''g-1'', ListMembers ''g-1'']\<rparr>"
proof -
  have add: "Difference [''B'', ''C'', ''D'', ''D''] [''A'', ''B'', ''C''] = [''D'']"
    and rem: "Difference [''A'', ''B'', ''C''] [''B'', ''C'', ''D'', ''D''] = [''A'']"
    by (simp_all add: Difference_def)
  have chk: "\<forall>h n e. onCheckName abcClient h n e = Returned None"
    and upd: "\<forall>h p. onUpdate abcClient h p = Returned ()"
    and lm: "\<forall>h. onListMembers abcClient h ''g-1'' = Returned [''A'', ''B'', ''C'']"
    and lo: "\<forall>h. onListOwners abcClient h ''g-1'' = Returned [''A'', ''B'', ''C'']"
    and rm: "\<forall>h xs. onRemoveMembers abcClient h ''g-1'' xs = Returned ()"
    and am: "\<forall>h g. onAddMembers abcClient h g = Returned ()"
    and ro: "\<forall>h xs. onRemoveOwners abcClient h ''g-1'' xs = Returned ()"
    and ao: "\<forall>h g. onAddOwners abcClient h g = Returned ()"
    by (simp_all add: abcClient_def servingClient_def)
  note inst = group_set_diff_reconciliation
      [where cl = abcClient and cfg = bcdConfig and i = "''g-1''"
         and existingM = "[''A'', ''B'', ''C'']" and existingO = "[''A'', ''B'', ''C'']"
         and desired = "[''B'', ''C'', ''D'', ''D'']" and existing = "[''A'', ''B'', ''C'']",
       OF chk upd lm lo rm am ro ao]
  have cfg: "has_change_members bcdConfig" "has_change_owners bcdConfig"
    "\<not> has_change_display_name bcdConfig"
    "group_members bcdConfig = Some [''B'', ''C'', ''D'', ''D'']"
    "group_owners bcdConfig = Some [''B'', ''C'', ''D'', ''D'']"
    by (simp_all add: bcdConfig_def)
  from inst have r: "groupResourceUpdate abcClient bcdConfig ''g-1'' =
       \<lparr>diags = NilDiag, Id = ''g-1'',
        calls = [Update (groupUpdateProperties bcdConfig ''g-1''),
                 ListMembers ''g-1'',
                 RemoveMembers ''g-1'' [''A''],
                 AddMembers ((groupUpdateProperties bcdConfig ''g-1'')\<lparr>Members := [''D'']\<rparr>),
                 ListOwners ''g-1'',
                 AddOwners ((groupUpdateProperties bcdConfig ''g-1'')
                              \<lparr>Members := [''D''], Owners := [''D'']\<rparr>),
                 RemoveOwners ''g-1'' [''A''],
                 Get ''g-1'', ListOwners ''g-1'', ListMembers ''g-1'']\<rparr>"
    by (simp add: cfg add rem groupResourceRead_def abcClient_def servingClient_def
        exampleGroup_def Let_def)
  from add rem r show ?thesis by simp
qed


subsection \<open>The replication wait after a creation\<close>

lemma isWait_simps:
  "isWait (WaitForCreationReplication i) = True"
  "isWait (Get i) = False"
  "isWait (Create p) = False"
  "isWait (Update p) = False"
  "isWait (Delete i) = False"
  "isWait (ListOwners i) = False"
  "isWait (ListMembers i) = False"
  "isWait (GroupCheckNameAvailability n e) = False"
  "isWait (ApplicationFindByName n) = False"
  "isWait (AddMembers p) = False"
  "isWait (RemoveMembers i xs) = False"
  "isWait (AddOwners p) = False"
  "isWait (RemoveOwners i xs) = False"
  "isWait (ApplicationSetOwners p xs) = False"
  "isWait (ApplicationSetAppRoles p) = False"
  "isWait (ApplicationSetOAuth2PermissionScopes p) = False"
  by (simp_all add: isWait_def)

lemma groupResourceRead_waits:
  "filter isWait (calls (groupResourceRead cl h i)) = filter isWait h"
  by (simp add: groupResourceRead_def isWait_simps Let_def split: response.split option.split)

lemma userResourceRead_waits:
  "filter isWait (calls (userResourceRead cl h i)) = filter isWait h"
  by (simp add: userResourceRead_def isWait_simps Let_def split: response.split option.split)

lemma applicationResourceRead_waits:
  "filter isWait (calls (applicationResourceRead cl h i)) = filter isWait h"
  by (simp add: applicationResourceRead_def isWait_simps Let_def
      split: response.split option.split)

lemma groupCheckName_waits:
  "filter isWait (snd (groupCheckName cl h n s)) = filter isWait h"
  by (simp add: groupCheckName_def isWait_simps Let_def split: response.split option.split)

lemma applicationCheckName_waits:
  "filter isWait (snd (applicationCheckName cl n s)) = []"
  by (simp add: applicationCheckName_def isWait_simps Let_def split: response.split option.split)

text \<open>
  A group creation waits for replication exactly once, right after a create call
  that returned an object ID, and not otherwise; so does a user creation.
\<close>

lemma groupResourceCreate_waits:
  "filter isWait (calls (groupResourceCreate cl gen cfg lid)) =
     (case gen of
        None \<Rightarrow> []
      | Some nick \<Rightarrow>
          (let checked = (if group_prevent_duplicate_names cfg
                          then groupCheckName cl [] (group_display_name cfg) None
                          else (NilDiag, []))
           in if fst checked \<noteq> NilDiag then []
              else (case onCreate cl (snd checked) (groupCreateProperties cfg nick) of
                      Failed s \<Rightarrow> []
                    | Returned g \<Rightarrow> (case groupID g of
                                      None \<Rightarrow> []
                                    | Some gid \<Rightarrow> [WaitForCreationReplication gid]))))"
  by (simp add: groupResourceCreate_def groupResourceRead_waits groupCheckName_waits isWait_simps
      Let_def split: response.split option.split)

lemma userResourceCreate_waits:
  "filter isWait (calls (userResourceCreate cl cfg lid)) =
     (case createMailNickName cfg of
        None \<Rightarrow> []
      | Some nick \<Rightarrow>
          (case onCreate cl [] (userProperties cfg nick) of
             Failed s \<Rightarrow> []
           | Returned u \<Rightarrow> (case userID u of
                             None \<Rightarrow> []
                           | Some uid \<Rightarrow> if uid = [] then []
                                         else [WaitForCreationReplication uid])))"
  by (simp add: userResourceCreate_def userResourceRead_waits isWait_simps
      Let_def split: response.split option.split)

text \<open>An application creation never waits for replication.\<close>

lemma applicationResourceCreate_waits:
  "filter isWait (calls (applicationResourceCreate cl cfg lid)) = []"
  by (simp add: applicationResourceCreate_def applicationResourceRead_waits
      applicationCheckName_waits isWait_simps Let_def split: response.split option.split)

text \<open>No sub-resource mutation waits for replication.\<close>

lemma appRoleRead_waits:
  "filter isWait (calls (applicationAppRoleResourceRead cl h i)) = filter isWait h"
  by (simp add: applicationAppRoleResourceRead_def isWait_simps Let_def AppRoleFindById_def
      split: response.split option.split prod.split)

lemma scopeRead_waits:
  "filter isWait (calls (applicationOAuth2PermissionScopeResourceRead cl h i)) = filter isWait h"
  by (simp add: applicationOAuth2PermissionScopeResourceRead_def isWait_simps Let_def
      OAuth2PermissionFindById_def split: response.split option.split prod.split)

lemma certificateRead_waits:
  "filter isWait (calls (applicationCertificateResourceRead cl h i)) = filter isWait h"
  by (simp add: applicationCertificateResourceRead_def isWait_simps Let_def
      split: response.split option.split prod.split)

lemma sub_resource_mutations_never_wait:
  "filter isWait (calls (applicationAppRoleResourceCreateUpdate cl gen rcfg isNew lid)) = []"
  "filter isWait (calls (applicationAppRoleResourceDelete cl lid)) = []"
  "filter isWait (calls (applicationOAuth2PermissionScopeResourceCreateUpdate cl gen scfg isNew lid))
     = []"
  "filter isWait (calls (applicationOAuth2PermissionScopeResourceDelete cl lid)) = []"
  "filter isWait (calls (applicationCertificateResourceCreate cl made objectId lid)) = []"
  "filter isWait (calls (applicationCertificateResourceDelete cl lid)) = []"
  by (simp_all add: applicationAppRoleResourceCreateUpdate_def applicationAppRoleResourceDelete_def
      appRoleDisableRemove_def AppRoleFindById_def appRoleRead_waits
      applicationOAuth2PermissionScopeResourceCreateUpdate_def
      applicationOAuth2PermissionScopeResourceDelete_def scopeDisableRemove_def
      OAuth2PermissionFindById_def scopeRead_waits
      applicationCertificateResourceCreate_def applicationCertificateResourceDelete_def
      certificateRead_waits isWait_simps Let_def
      split: response.split option.split sum.split prod.split)

text \<open>
  Claim C4, at the input where the code departs from it. The application is
  created (the create call returns the object ID \<open>app-1\<close>) and the creation ends
  without diagnostics; the calls issued are the create call and the two calls of
  the read that follows, and none of them is the replication wait.
\<close>

theorem application_create_without_replication_wait:
  "applicationResourceCreate (servingClient exampleApp) plainAppConfig [] =
     \<lparr>diags = NilDiag, Id = ''app-1'',
      calls = [Create (applicationCreateProperties plainAppConfig), Get ''app-1'',
               ListOwners ''app-1'']\<rparr>
   \<and> filter isWait (calls (applicationResourceCreate (servingClient exampleApp) plainAppConfig []))
       = []"
  by (simp add: applicationResourceCreate_def applicationResourceRead_def
      applicationValidateRolesScopes_def plainAppConfig_def servingClient_def exampleApp_def
      isWait_simps Let_def)

end
